theory Spec2Isabelle
  imports Main
begin

section \<open>The browser manager: data model\<close>

text \<open>
  The class \<open>BrowserManager\<close> owns the browser handle, the tracked contexts and pages, the
  active-page index, the debugging (CDP) session, the screencast flags, the recording
  fields and the scoped-header rules. The engine objects it holds (browser, context, page,
  CDP session) are opaque handles compared by identity.
\<close>

datatype browser = Browser nat
datatype browser_context = BrowserContext nat
datatype page = Page nat
datatype cdp_session = CDPSession nat

text \<open>\<open>throw new Error(msg)\<close>; a rejected engine call carries the engine's message.\<close>

datatype error = Error string

type_synonym 'a result = "error + 'a"

fun message :: "error \<Rightarrow> string" where
  "message (Error m) = m"

type_synonym headers = "(string \<times> string) list"

text \<open>
  A scoped-header route handler is a closure over the \<open>headers\<close> argument of the call that
  created it. Closures are compared by identity, so each carries the number under which it
  was allocated.
\<close>

datatype handler = Handler nat headers


text \<open>
  Calls issued to the engine, the file system and the remote providers. The manager's state
  carries the list of calls issued so far, oldest first, so that "no side effect" is a
  statement about the state.
\<close>

datatype provider = Browserbase | BrowserUse | Kernel

datatype effect =
    LaunchBrowser string
  | LaunchPersistentContext string string
  | ConnectOverCDP string
  | NewContext browser
  | SetDefaultTimeout browser_context nat
  | NewPage browser_context
  | PageClose page
  | ContextClose browser_context
  | BrowserClose browser
  | StorageState browser_context
  | NewCDPSession page
  | CdpSend cdp_session string
  | CdpOn cdp_session string nat
  | CdpOff cdp_session string nat
  | CdpDetach cdp_session
  | PageRoute page string handler
  | PageUnroute page string handler
  | PageGoto page string
  | VideoSaveAs page string
  | MkdirSync string
  | RmSync string
  | CreateSession provider
  | CloseSession provider string string
  | KernelProfileGet string
  | KernelProfileCreate string
  | ProbeDebugPort nat

text \<open>The fields of \<open>BrowserManager\<close> that the modelled operations read or write.\<close>

record state =
  browser :: "browser option"
  cdpEndpoint :: "string option"
  isPersistentContext :: bool
  browserbaseSessionId :: "string option"
  browserbaseApiKey :: "string option"
  browserUseSessionId :: "string option"
  browserUseApiKey :: "string option"
  kernelSessionId :: "string option"
  kernelApiKey :: "string option"
  contexts :: "browser_context list"
  pages :: "page list"
  activePageIndex :: int
  refMap :: "(string \<times> string) list"
  lastSnapshot :: string
  scopedHeaderRoutes :: "string \<rightharpoonup> handler"
  cdpSession :: "cdp_session option"
  screencastActive :: bool
  frameCallback :: "nat option"
  screencastFrameHandler :: "nat option"
  recordingContext :: "browser_context option"
  recordingPage :: "page option"
  recordingOutputPath :: string
  recordingTempDir :: string
  launchWarnings :: "string list"
  closures :: nat
  calls :: "effect list"

text \<open>
  \<open>closures\<close> counts the closures allocated so far (the identity of the next one) and
  \<open>calls\<close> is the list of external calls; neither is a field of the class. The fields
  \<open>activeFrame\<close>, \<open>dialogHandler\<close>, \<open>trackedRequests\<close>, \<open>routes\<close>, \<open>consoleMessages\<close>,
  \<open>pageErrors\<close>, \<open>isRecordingHar\<close> and \<open>screencastSessionId\<close> are not touched by any
  operation modelled here and are left out.
\<close>

definition initial :: state where
  "initial = \<lparr> browser = None, cdpEndpoint = None, isPersistentContext = False,
     browserbaseSessionId = None, browserbaseApiKey = None,
     browserUseSessionId = None, browserUseApiKey = None,
     kernelSessionId = None, kernelApiKey = None,
     contexts = [], pages = [], activePageIndex = 0,
     refMap = [], lastSnapshot = [], scopedHeaderRoutes = Map.empty,
     cdpSession = None, screencastActive = False, frameCallback = None,
     screencastFrameHandler = None,
     recordingContext = None, recordingPage = None,
     recordingOutputPath = [], recordingTempDir = [],
     launchWarnings = [], closures = 0, calls = [] \<rparr>"

text \<open>
  The answer to a provider's create-session request: a response that is not \<open>ok\<close> (with
  its status text), a body that does not parse (with the parser's message), or a session
  id with the endpoint to connect to.
\<close>

datatype create_response = NotOk string | Unparsable string | Session string string

text \<open>
  What the auto-load state file of a local launch turns out to be: absent, plain, encrypted
  and decrypted, encrypted with no key in the environment, encrypted with the wrong key, or
  unreadable.
\<close>

datatype state_file =
  NoStateFile | PlainState | DecryptedState | EncryptedNoKey | EncryptedBadKey | UnreadableState

text \<open>
  What the manager reads from outside: the results of engine calls, the environment
  variables, the file system and the clock. \<open>rejects cs e\<close> is the message with which the
  call \<open>e\<close> fails after the calls \<open>cs\<close>, or \<open>None\<close> when it completes. It is consulted at
  the call sites whose failure the source handles (a \<open>try\<close> block or a \<open>.catch\<close>); a call
  the source awaits unguarded is modelled by its completion.
\<close>

record env =
  rejects :: "effect list \<Rightarrow> effect \<Rightarrow> string option"
  launched :: "effect list \<Rightarrow> browser"
  launchedPersistent :: "effect list \<Rightarrow> browser_context"
  connected :: "effect list \<Rightarrow> string \<Rightarrow> browser"
  browserContexts :: "browser \<Rightarrow> browser_context list"
  contextPages :: "browser_context \<Rightarrow> page list"
  isConnected :: "browser \<Rightarrow> bool"
  newContextOf :: "effect list \<Rightarrow> browser \<Rightarrow> browser_context"
  newPageOf :: "effect list \<Rightarrow> browser_context \<Rightarrow> page"
  newCDPSessionOf :: "effect list \<Rightarrow> page \<Rightarrow> cdp_session"
  pageUrl :: "page \<Rightarrow> string"
  pageVideo :: "page \<Rightarrow> bool"
  existsSync :: "string \<Rightarrow> bool"
  getenv :: "string \<Rightarrow> string option"
  tmpdir :: string
  homedir :: string
  pathSep :: string
  platform :: string
  dateNow :: "effect list \<Rightarrow> nat"
  urlHost :: "string \<Rightarrow> string option"
  createResponse :: "effect list \<Rightarrow> provider \<Rightarrow> create_response"
  profileResponse :: "effect list \<Rightarrow> string \<Rightarrow> bool \<times> nat \<times> string"
  profileCreateResponse :: "effect list \<Rightarrow> string \<Rightarrow> bool \<times> string"
  devToolsActivePort :: "string \<Rightarrow> nat option"
  debuggerUrl :: "effect list \<Rightarrow> nat \<Rightarrow> string option"
  stateFile :: "string \<Rightarrow> state_file"
  encryptionKeyEnv :: string

definition call :: "effect \<Rightarrow> state \<Rightarrow> state" where
  "call e s = s\<lparr>calls := calls s @ [e]\<rparr>"

subsection \<open>Array operations of the source language\<close>

text \<open>\<open>xs.indexOf(x)\<close>: the first position of \<open>x\<close>, or \<open>-1\<close>.\<close>

fun indexOf :: "'a list \<Rightarrow> 'a \<Rightarrow> int" where
  "indexOf [] x = -1"
| "indexOf (y # ys) x =
     (if y = x then 0 else (let i = indexOf ys x in if i = -1 then -1 else i + 1))"

text \<open>
  \<open>xs.splice(i, 1)\<close>: a negative start counts from the end, a start past the end removes
  nothing.
\<close>

definition splice1 :: "int \<Rightarrow> 'a list \<Rightarrow> 'a list" where
  "splice1 i xs =
     (let n = int (length xs);
          j = (if i < 0 then max (n + i) 0 else min i n)
      in take (nat j) xs @ drop (nat j + 1) xs)"

text \<open>\<open>xs[i]\<close>: \<open>undefined\<close> (here \<open>None\<close>) out of range.\<close>

definition at :: "'a list \<Rightarrow> int \<Rightarrow> 'a option" where
  "at xs i = (if 0 \<le> i \<and> i < int (length xs) then Some (xs ! nat i) else None)"

definition typeError :: error where
  "typeError = Error ''TypeError: Cannot read properties of undefined''"

text \<open>\<open>String(n)\<close> for a non-negative integer and for an integer.\<close>

definition digit :: "nat \<Rightarrow> char" where
  "digit d = ''0123456789'' ! d"

function showNat :: "nat \<Rightarrow> string" where
  "showNat n = (if n < 10 then [digit n] else showNat (n div 10) @ [digit (n mod 10)])"
  by pat_completeness auto
termination
  by (relation "measure id") auto

definition showInt :: "int \<Rightarrow> string" where
  "showInt i = (if i < 0 then CHR ''-'' # showNat (nat (- i)) else showNat (nat i))"

definition startsWith :: "string \<Rightarrow> string \<Rightarrow> bool" where
  "startsWith s p = (take (length p) s = p)"

definition endsWith :: "string \<Rightarrow> string \<Rightarrow> bool" where
  "endsWith s p = (length p \<le> length s \<and> drop (length s - length p) s = p)"

section \<open>Tab and context registry\<close>

definition isLaunched :: "state \<Rightarrow> bool" where
  "isLaunched s = (browser s \<noteq> None \<or> isPersistentContext s)"

definition hasPages :: "state \<Rightarrow> bool" where
  "hasPages s = (0 < length (pages s))"

text \<open>
  \<open>getPage\<close> throws when no page is tracked and otherwise returns
  \<open>pages[activePageIndex]\<close>, which is \<open>undefined\<close> when the index is out of range.
\<close>

definition getPage :: "state \<Rightarrow> (page option) result" where
  "getPage s =
     (if length (pages s) = 0 then Inl (Error ''Browser not launched. Call launch first.'')
      else Inr (at (pages s) (activePageIndex s)))"

subsection \<open>Debugging session and screencast\<close>

definition getCDPSession :: "env \<Rightarrow> state \<Rightarrow> cdp_session result \<times> state" where
  "getCDPSession w s =
     (case cdpSession s of
        Some c \<Rightarrow> (Inr c, s)
      | None \<Rightarrow>
          (case getPage s of
             Inl e \<Rightarrow> (Inl e, s)
           | Inr None \<Rightarrow> (Inl typeError, s)
           | Inr (Some p) \<Rightarrow>
               (case rejects w (calls s) (NewCDPSession p) of
                  Some m \<Rightarrow> (Inl (Error m), call (NewCDPSession p) s)
                | None \<Rightarrow>
                    (let c = newCDPSessionOf w (calls s) p
                     in (Inr c, (call (NewCDPSession p) s)\<lparr>cdpSession := Some c\<rparr>)))))"

text \<open>
  \<open>startScreencast(callback, options)\<close>. The options only parametrise the start command
  and are not part of the model.
\<close>

definition startScreencast :: "env \<Rightarrow> nat \<Rightarrow> state \<Rightarrow> unit result \<times> state" where
  "startScreencast w callback s =
     (if screencastActive s then (Inl (Error ''Screencast already active''), s)
      else
        (case getCDPSession w s of
           (Inl e, s1) \<Rightarrow> (Inl e, s1)
         | (Inr cdp, s1) \<Rightarrow>
             (let h = closures s1;
                  s2 = s1\<lparr>frameCallback := Some callback, screencastActive := True,
                          screencastFrameHandler := Some h, closures := h + 1\<rparr>;
                  s3 = call (CdpOn cdp ''Page.screencastFrame'' h) s2;
                  s4 = call (CdpSend cdp ''Page.startScreencast'') s3
              in (Inr (), s4))))"

text \<open>The body of the \<open>try\<close> block of \<open>stopScreencast\<close>.\<close>

definition stopScreencast_try :: "env \<Rightarrow> state \<Rightarrow> unit result \<times> state" where
  "stopScreencast_try w s =
     (case getCDPSession w s of
        (Inl e, s1) \<Rightarrow> (Inl e, s1)
      | (Inr cdp, s1) \<Rightarrow>
          (case rejects w (calls s1) (CdpSend cdp ''Page.stopScreencast'') of
             Some m \<Rightarrow> (Inl (Error m), call (CdpSend cdp ''Page.stopScreencast'') s1)
           | None \<Rightarrow>
               (let s2 = call (CdpSend cdp ''Page.stopScreencast'') s1
                in (case screencastFrameHandler s2 of
                      Some h \<Rightarrow> (Inr (), call (CdpOff cdp ''Page.screencastFrame'' h) s2)
                    | None \<Rightarrow> (Inr (), s2)))))"

definition stopScreencast :: "env \<Rightarrow> state \<Rightarrow> unit result \<times> state" where
  "stopScreencast w s =
     (if \<not> screencastActive s then (Inr (), s)
      else
        (let s1 = snd (stopScreencast_try w s)
         in (Inr (), s1\<lparr>screencastActive := False, frameCallback := None,
                         screencastFrameHandler := None\<rparr>)))"

text \<open>\<open>cdpSession.detach().catch(() => {})\<close>: the outcome of the detach is discarded.\<close>

definition detachCDPSession :: "state \<Rightarrow> state" where
  "detachCDPSession s =
     (case cdpSession s of
        Some c \<Rightarrow> (call (CdpDetach c) s)\<lparr>cdpSession := None\<rparr>
      | None \<Rightarrow> s)"

definition invalidateCDPSession :: "env \<Rightarrow> state \<Rightarrow> unit result \<times> state" where
  "invalidateCDPSession w s =
     (case (if screencastActive s then stopScreencast w s else (Inr (), s)) of
        (Inl e, s1) \<Rightarrow> (Inl e, s1)
      | (Inr u, s1) \<Rightarrow> (Inr (), detachCDPSession s1))"

subsection \<open>Engine events\<close>

text \<open>
  The listener that \<open>setupPageTracking\<close> registers for a page's \<open>close\<close> event. The model
  delivers an event as a step of its own, between two operations.
\<close>

definition onPageClose :: "page \<Rightarrow> state \<Rightarrow> state" where
  "onPageClose p s =
     (let index = indexOf (pages s) p
      in if index \<noteq> -1 then
           (let s1 = s\<lparr>pages := splice1 index (pages s)\<rparr>
            in if int (length (pages s1)) \<le> activePageIndex s1
               then s1\<lparr>activePageIndex := max 0 (int (length (pages s1)) - 1)\<rparr>
               else s1)
         else s)"

text \<open>
  The listener that \<open>setupContextTracking\<close> registers for a context's \<open>page\<close> event. The
  invalidation it starts is not awaited (\<open>.catch(() => {})\<close>); the model runs it to its end
  within the step.
\<close>

definition onContextPage :: "env \<Rightarrow> page \<Rightarrow> state \<Rightarrow> state" where
  "onContextPage w p s =
     (let s1 = (if p \<notin> set (pages s) then s\<lparr>pages := pages s @ [p]\<rparr> else s);
          newIndex = indexOf (pages s1) p
      in if newIndex \<noteq> -1 \<and> newIndex \<noteq> activePageIndex s1
         then snd (invalidateCDPSession w (s1\<lparr>activePageIndex := newIndex\<rparr>))
         else s1)"

subsection \<open>Operations on tabs\<close>

text \<open>The tail shared by every operation that has just obtained a page from the engine.\<close>

definition trackNewPage :: "page \<Rightarrow> state \<Rightarrow> state" where
  "trackNewPage p s =
     (let s1 = (if p \<notin> set (pages s) then s\<lparr>pages := pages s @ [p]\<rparr> else s)
      in s1\<lparr>activePageIndex := int (length (pages s1)) - 1\<rparr>)"

definition ensurePage :: "env \<Rightarrow> state \<Rightarrow> unit result \<times> state" where
  "ensurePage w s =
     (if 0 < length (pages s) then (Inr (), s)
      else if browser s = None \<and> \<not> isPersistentContext s then (Inr (), s)
      else
        (case (if 0 < length (contexts s) then Some (last (contexts s), s)
               else (case browser s of
                       Some b \<Rightarrow>
                         (let c = newContextOf w (calls s) b;
                              s1 = call (SetDefaultTimeout c 60000) (call (NewContext b) s)
                          in Some (c, s1\<lparr>contexts := contexts s1 @ [c]\<rparr>))
                     | None \<Rightarrow> None)) of
           None \<Rightarrow> (Inr (), s)
         | Some (c, s1) \<Rightarrow>
             (let p = newPageOf w (calls s1) c
              in (Inr (), trackNewPage p (call (NewPage c) s1)))))"

definition newTab :: "env \<Rightarrow> state \<Rightarrow> (int \<times> int) result \<times> state" where
  "newTab w s =
     (if browser s = None \<or> length (contexts s) = 0 then (Inl (Error ''Browser not launched''), s)
      else
        (case invalidateCDPSession w s of
           (Inl e, s1) \<Rightarrow> (Inl e, s1)
         | (Inr u, s1) \<Rightarrow>
             (let c = hd (contexts s1);
                  p = newPageOf w (calls s1) c;
                  s2 = trackNewPage p (call (NewPage c) s1)
              in (Inr (activePageIndex s2, int (length (pages s2))), s2))))"

text \<open>The viewport argument of \<open>newWindow\<close> is only handed to the engine.\<close>

definition newWindow :: "env \<Rightarrow> state \<Rightarrow> (int \<times> int) result \<times> state" where
  "newWindow w s =
     (case browser s of
        None \<Rightarrow> (Inl (Error ''Browser not launched''), s)
      | Some b \<Rightarrow>
          (let c = newContextOf w (calls s) b;
               s1 = call (SetDefaultTimeout c 60000) (call (NewContext b) s);
               s2 = s1\<lparr>contexts := contexts s1 @ [c]\<rparr>;
               p = newPageOf w (calls s2) c;
               s3 = trackNewPage p (call (NewPage c) s2)
           in (Inr (activePageIndex s3, int (length (pages s3))), s3)))"

definition switchTo :: "env \<Rightarrow> int \<Rightarrow> state \<Rightarrow> (int \<times> string) result \<times> state" where
  "switchTo w index s =
     (if index < 0 \<or> int (length (pages s)) \<le> index
      then (Inl (Error (''Invalid tab index: '' @ showInt index @ ''. Available: 0-''
                        @ showInt (int (length (pages s)) - 1))), s)
      else
        (case (if index \<noteq> activePageIndex s then invalidateCDPSession w s else (Inr (), s)) of
           (Inl e, s1) \<Rightarrow> (Inl e, s1)
         | (Inr u, s1) \<Rightarrow>
             (let s2 = s1\<lparr>activePageIndex := index\<rparr>
              in (case at (pages s2) index of
                    None \<Rightarrow> (Inl typeError, s2)
                  | Some p \<Rightarrow> (Inr (activePageIndex s2, pageUrl w p), s2)))))"

text \<open>
  \<open>closeTab(index?)\<close> returns \<open>{closed, remaining}\<close>. Both checks come before the first
  assignment, so a rejected call leaves the state as it was.
\<close>

definition closeTab :: "env \<Rightarrow> int option \<Rightarrow> state \<Rightarrow> (int \<times> int) result \<times> state" where
  "closeTab w index s =
     (let targetIndex = (case index of Some i \<Rightarrow> i | None \<Rightarrow> activePageIndex s)
      in if targetIndex < 0 \<or> int (length (pages s)) \<le> targetIndex
         then (Inl (Error (''Invalid tab index: '' @ showInt targetIndex)), s)
         else if length (pages s) = 1
         then (Inl (Error ''Cannot close the last tab. Use \"close\" to close the browser.''), s)
         else
           (case (if targetIndex = activePageIndex s then invalidateCDPSession w s
                  else (Inr (), s)) of
              (Inl e, s1) \<Rightarrow> (Inl e, s1)
            | (Inr u, s1) \<Rightarrow>
                (case at (pages s1) targetIndex of
                   None \<Rightarrow> (Inl typeError, s1)
                 | Some p \<Rightarrow>
                     (let s2 = call (PageClose p) s1;
                          s3 = s2\<lparr>pages := splice1 targetIndex (pages s2)\<rparr>;
                          s4 = (if int (length (pages s3)) \<le> activePageIndex s3
                                then s3\<lparr>activePageIndex := int (length (pages s3)) - 1\<rparr>
                                else if targetIndex < activePageIndex s3
                                then s3\<lparr>activePageIndex := activePageIndex s3 - 1\<rparr>
                                else s3)
                      in (Inr (targetIndex, int (length (pages s4))), s4)))))"


section \<open>Recording\<close>

text \<open>
  Sequencing of steps that may throw: the first error ends the run, as an exception does.
  \<open>attempt\<close> issues a call whose rejection the caller handles.
\<close>

definition andThen ::
  "'a result \<times> state \<Rightarrow> ('a \<Rightarrow> state \<Rightarrow> 'b result \<times> state) \<Rightarrow> 'b result \<times> state" where
  "andThen r f = (case r of (Inl e, s) \<Rightarrow> (Inl e, s) | (Inr x, s) \<Rightarrow> f x s)"

definition attempt :: "env \<Rightarrow> effect \<Rightarrow> state \<Rightarrow> unit result \<times> state" where
  "attempt w e s =
     (case rejects w (calls s) e of
        Some m \<Rightarrow> (Inl (Error m), call e s)
      | None \<Rightarrow> (Inr (), call e s))"

text \<open>A call followed by \<open>.catch\<close> with a handler that does not rethrow.\<close>

definition attemptCatch :: "env \<Rightarrow> effect \<Rightarrow> state \<Rightarrow> state" where
  "attemptCatch w e s = snd (attempt w e s)"

text \<open>Truthiness of a string that may be \<open>null\<close> or \<open>undefined\<close>.\<close>

definition truthy :: "string option \<Rightarrow> bool" where
  "truthy v = (case v of Some x \<Rightarrow> x \<noteq> [] | None \<Rightarrow> False)"

text \<open>\<open>path.join\<close> of two segments, with the platform's separator.\<close>

definition pathJoin :: "env \<Rightarrow> string \<Rightarrow> string \<Rightarrow> string" where
  "pathJoin w a b = a @ pathSep w @ b"


definition sessionName :: "env \<Rightarrow> string" where
  "sessionName w =
     (if truthy (getenv w ''AGENT_BROWSER_SESSION'') then the (getenv w ''AGENT_BROWSER_SESSION'')
      else ''default'')"

text \<open>
  The steps of \<open>startRecording\<close> after its checks, in the order of the source. First the
  URL to navigate to: the one given, or the current page's unless it is empty or blank.
\<close>

definition autoCaptureUrl :: "env \<Rightarrow> string option \<Rightarrow> state \<Rightarrow> string option" where
  "autoCaptureUrl w url s =
     (case (if 0 < length (pages s) then at (pages s) (activePageIndex s) else None) of
        Some currentPage \<Rightarrow>
          if \<not> truthy url \<and> pageUrl w currentPage \<noteq> [] \<and> pageUrl w currentPage \<noteq> ''about:blank''
          then Some (pageUrl w currentPage) else url
      | None \<Rightarrow> url)"

text \<open>
  The storage state of the first context is read inside a \<open>try\<close> whose \<open>catch\<close> is empty;
  it is only handed to the new context.
\<close>

definition captureStorageState :: "env \<Rightarrow> state \<Rightarrow> state" where
  "captureStorageState w s =
     (if 0 < length (contexts s) then attemptCatch w (StorageState (hd (contexts s))) s else s)"

definition createRecordingTempDir :: "env \<Rightarrow> state \<Rightarrow> state" where
  "createRecordingTempDir w s =
     (let dir = pathJoin w (tmpdir w)
                  (''agent-browser-recording-'' @ sessionName w @ ''-'' @ showNat (dateNow w (calls s)))
      in call (MkdirSync dir) (s\<lparr>recordingTempDir := dir\<rparr>))"

text \<open>The new context and its page, then their registration as the active tab.\<close>

definition createRecordingContext :: "env \<Rightarrow> browser \<Rightarrow> state \<Rightarrow> state" where
  "createRecordingContext w b s =
     (let rc = newContextOf w (calls s) b;
          s1 = call (SetDefaultTimeout rc 10000)
                 ((call (NewContext b) s)\<lparr>recordingContext := Some rc\<rparr>);
          rp = newPageOf w (calls s1) rc
      in (call (NewPage rc) s1)\<lparr>recordingPage := Some rp\<rparr>)"

definition trackRecording :: "state \<Rightarrow> state" where
  "trackRecording s =
     (case (recordingContext s, recordingPage s) of
        (Some rc, Some rp) \<Rightarrow>
          (let s1 = s\<lparr>contexts := contexts s @ [rc], pages := pages s @ [rp]\<rparr>
           in s1\<lparr>activePageIndex := int (length (pages s1)) - 1\<rparr>)
      | _ \<Rightarrow> s)"

text \<open>\<open>startRecording(outputPath, url?)\<close>. The four checks come first.\<close>

definition startRecording ::
  "env \<Rightarrow> string \<Rightarrow> string option \<Rightarrow> state \<Rightarrow> unit result \<times> state" where
  "startRecording w outputPath url s =
     (if recordingContext s \<noteq> None
      then (Inl (Error (''Recording already in progress. Run 'record stop' first, ''
                        @ ''or use 'record restart' to stop and start a new recording.'')), s)
      else
        (case browser s of
           None \<Rightarrow> (Inl (Error ''Browser not launched. Call launch first.''), s)
         | Some b \<Rightarrow>
             if existsSync w outputPath
             then (Inl (Error (''Output file already exists: '' @ outputPath)), s)
             else if \<not> endsWith outputPath ''.webm''
             then (Inl (Error (''Playwright native recording only supports WebM format. ''
                               @ ''Please use a .webm extension.'')), s)
             else
               (let url1 = autoCaptureUrl w url s;
                    s1 = captureStorageState w s;
                    s2 = createRecordingTempDir w s1;
                    s3 = s2\<lparr>recordingOutputPath := outputPath\<rparr>;
                    s4 = trackRecording (createRecordingContext w b s3)
                in andThen (invalidateCDPSession w s4)
                     (\<lambda>u s5. if truthy url1
                             then (case recordingPage s5 of
                                     Some rp \<Rightarrow> (Inr (), call (PageGoto rp (the url1)) s5)
                                   | None \<Rightarrow> (Inl typeError, s5))
                             else (Inr (), s5)))))"

record recording_result =
  path :: string
  frames :: nat
  error :: "string option"

text \<open>
  The steps of \<open>stopRecording\<close>: the recording page and context leave the tracked lists
  before anything is closed; the recording fields are reset; the active index is brought
  back into range.
\<close>

definition untrackRecording :: "browser_context \<Rightarrow> page \<Rightarrow> state \<Rightarrow> state" where
  "untrackRecording rc rp s =
     (let pageIndex = indexOf (pages s) rp;
          s1 = (if pageIndex \<noteq> -1 then s\<lparr>pages := splice1 pageIndex (pages s)\<rparr> else s);
          contextIndex = indexOf (contexts s1) rc
      in if contextIndex \<noteq> -1 then s1\<lparr>contexts := splice1 contextIndex (contexts s1)\<rparr>
         else s1)"

definition resetRecording :: "state \<Rightarrow> state" where
  "resetRecording s = s\<lparr>recordingContext := None, recordingPage := None,
                         recordingOutputPath := [], recordingTempDir := []\<rparr>"

definition adjustActiveIndex :: "state \<Rightarrow> state" where
  "adjustActiveIndex s =
     (if 0 < length (pages s)
      then s\<lparr>activePageIndex := min (activePageIndex s) (int (length (pages s)) - 1)\<rparr>
      else s\<lparr>activePageIndex := 0\<rparr>)"

text \<open>The body of the \<open>try\<close> block of \<open>stopRecording\<close>.\<close>

definition stopRecording_try ::
  "env \<Rightarrow> browser_context \<Rightarrow> page \<Rightarrow> string \<Rightarrow> state \<Rightarrow> unit result \<times> state" where
  "stopRecording_try w rc rp outputPath s =
     (let video = pageVideo w rp
      in andThen (attempt w (PageClose rp) (untrackRecording rc rp s))
        (\<lambda>u s1. andThen (if video then attempt w (VideoSaveAs rp outputPath) s1 else (Inr (), s1))
        (\<lambda>u s2. andThen (if recordingTempDir s2 \<noteq> [] then attempt w (RmSync (recordingTempDir s2)) s2
                          else (Inr (), s2))
        (\<lambda>u s3. andThen (attempt w (ContextClose rc) s3)
        (\<lambda>u s4. invalidateCDPSession w (adjustActiveIndex (resetRecording s4)))))))"

text \<open>
  \<open>stopRecording\<close>: the \<open>catch\<close> block removes the temp directory, resets the recording
  fields and returns the message in the \<open>error\<close> field.
\<close>

definition stopRecording :: "env \<Rightarrow> state \<Rightarrow> recording_result result \<times> state" where
  "stopRecording w s =
     (case (recordingContext s, recordingPage s) of
        (Some rc, Some rp) \<Rightarrow>
          (let outputPath = recordingOutputPath s
           in (case stopRecording_try w rc rp outputPath s of
                 (Inr u, s1) \<Rightarrow> (Inr \<lparr>path = outputPath, frames = 0, error = None\<rparr>, s1)
               | (Inl e, s1) \<Rightarrow>
                   (let s2 = (if recordingTempDir s1 \<noteq> [] then call (RmSync (recordingTempDir s1)) s1
                              else s1)
                    in (Inr \<lparr>path = outputPath, frames = 0, error = Some (message e)\<rparr>,
                        resetRecording s2))))
      | _ \<Rightarrow> (Inr \<lparr>path = [], frames = 0, error = Some ''No recording in progress''\<rparr>, s))"

text \<open>\<open>restartRecording\<close> returns \<open>{previousPath, stopped}\<close>.\<close>

definition restartRecording ::
  "env \<Rightarrow> string \<Rightarrow> string option \<Rightarrow> state \<Rightarrow> (string option \<times> bool) result \<times> state" where
  "restartRecording w outputPath url s =
     andThen (if recordingContext s \<noteq> None
              then andThen (stopRecording w s) (\<lambda>r s1. (Inr (Some (path r), True), s1))
              else (Inr (None, False), s))
       (\<lambda>prev s1. andThen (startRecording w outputPath url s1) (\<lambda>u s2. (Inr prev, s2)))"

section \<open>Scoped headers\<close>

text \<open>
  The URL pattern of an origin. \<open>urlHost\<close> is the \<open>host\<close> of \<open>new URL(...)\<close>, or \<open>None\<close>
  when the constructor throws.
\<close>

definition scopedPattern :: "env \<Rightarrow> string \<Rightarrow> string" where
  "scopedPattern w origin =
     (case urlHost w (if startsWith origin ''http'' then origin else ''https://'' @ origin) of
        Some host \<Rightarrow> ''**://'' @ host @ ''/**''
      | None \<Rightarrow> ''**://'' @ origin @ ''/**'')"

text \<open>
  \<open>setScopedHeaders(origin, headers)\<close>. When the active index points past the pages,
  \<open>page\<close> is \<open>undefined\<close> and the first call on it throws.
\<close>

definition setScopedHeaders ::
  "env \<Rightarrow> string \<Rightarrow> headers \<Rightarrow> state \<Rightarrow> unit result \<times> state" where
  "setScopedHeaders w origin hs s =
     (case getPage s of
        Inl e \<Rightarrow> (Inl e, s)
      | Inr pg \<Rightarrow>
          (let urlPattern = scopedPattern w origin
           in andThen
                (case scopedHeaderRoutes s urlPattern of
                   Some existingHandler \<Rightarrow>
                     (case pg of
                        None \<Rightarrow> (Inl typeError, s)
                      | Some p \<Rightarrow> (Inr (), call (PageUnroute p urlPattern existingHandler) s))
                 | None \<Rightarrow> (Inr (), s))
                (\<lambda>u s1.
                   (let h = Handler (closures s1) hs;
                        s2 = s1\<lparr>closures := closures s1 + 1,
                                scopedHeaderRoutes := (scopedHeaderRoutes s1)(urlPattern \<mapsto> h)\<rparr>
                    in (case pg of
                          None \<Rightarrow> (Inl typeError, s2)
                        | Some p \<Rightarrow> (Inr (), call (PageRoute p urlPattern h) s2))))))"





section \<open>Teardown\<close>

text \<open>
  \<open>close()\<close>. Every engine and provider call in it carries a \<open>.catch\<close> that swallows the
  rejection.
\<close>

definition closeResources :: "env \<Rightarrow> state \<Rightarrow> state" where
  "closeResources w s =
     (if truthy (browserbaseSessionId s) \<and> truthy (browserbaseApiKey s)
      then (attemptCatch w (CloseSession Browserbase (the (browserbaseSessionId s))
                                         (the (browserbaseApiKey s))) s)\<lparr>browser := None\<rparr>
      else if truthy (browserUseSessionId s) \<and> truthy (browserUseApiKey s)
      then (attemptCatch w (CloseSession BrowserUse (the (browserUseSessionId s))
                                         (the (browserUseApiKey s))) s)\<lparr>browser := None\<rparr>
      else if truthy (kernelSessionId s) \<and> truthy (kernelApiKey s)
      then (attemptCatch w (CloseSession Kernel (the (kernelSessionId s))
                                         (the (kernelApiKey s))) s)\<lparr>browser := None\<rparr>
      else if cdpEndpoint s \<noteq> None
      then (case browser s of
              Some b \<Rightarrow> (attemptCatch w (BrowserClose b) s)\<lparr>browser := None\<rparr>
            | None \<Rightarrow> s)
      else
        (let s1 = foldl (\<lambda>t p. attemptCatch w (PageClose p) t) s (pages s);
             s2 = foldl (\<lambda>t c. attemptCatch w (ContextClose c) t) s1 (contexts s1)
         in (case browser s2 of
               Some b \<Rightarrow> (attemptCatch w (BrowserClose b) s2)\<lparr>browser := None\<rparr>
             | None \<Rightarrow> s2)))"

definition close :: "env \<Rightarrow> state \<Rightarrow> unit result \<times> state" where
  "close w s =
     andThen (if recordingContext s \<noteq> None
              then andThen (stopRecording w s) (\<lambda>r s1. (Inr (), s1))
              else (Inr (), s))
       (\<lambda>u s1. andThen (if screencastActive s1 then stopScreencast w s1 else (Inr (), s1))
       (\<lambda>u s2.
          (let s3 = detachCDPSession s2;
               s4 = closeResources w s3
           in (Inr (), s4\<lparr>pages := [], contexts := [], cdpEndpoint := None,
                           browserbaseSessionId := None, browserbaseApiKey := None,
                           browserUseSessionId := None, browserUseApiKey := None,
                           kernelSessionId := None, kernelApiKey := None,
                           isPersistentContext := False, activePageIndex := 0,
                           refMap := [], lastSnapshot := [], frameCallback := None\<rparr>))))"

section \<open>Connection strategies\<close>

text \<open>
  The part of \<open>LaunchCommand\<close> that decides the control flow and the state. The options that
  are only handed to the engine (headless, args, viewport, headers, user agent, proxy,
  executable path) are left out. \<open>browserOption\<close> is the option \<open>browser\<close>.
\<close>

datatype storage_state = StatePath string | StateObject

record launch_command =
  cdpUrl :: "string option"
  cdpPort :: "nat option"
  extensions :: "string list option"
  profile :: "string option"
  storageState :: "storage_state option"
  autoConnect :: bool
  provider :: "string option"
  browserOption :: "string option"
  allowFileAccess :: bool
  autoStateFilePath :: "string option"

definition includesStr :: "string \<Rightarrow> string \<Rightarrow> bool" where
  "includesStr s t = list_ex (\<lambda>i. take (length t) (drop i s) = t) [0 ..< length s + 1]"

definition isCdpConnectionAlive :: "env \<Rightarrow> state \<Rightarrow> bool" where
  "isCdpConnectionAlive w s =
     (case browser s of
        None \<Rightarrow> False
      | Some b \<Rightarrow>
          if length (browserContexts w b) = 0 then False
          else list_ex (\<lambda>c. 0 < length (contextPages w c)) (browserContexts w b))"

definition needsCdpReconnect :: "env \<Rightarrow> string \<Rightarrow> state \<Rightarrow> bool" where
  "needsCdpReconnect w endpoint s =
     (if (case browser s of None \<Rightarrow> True | Some b \<Rightarrow> \<not> isConnected w b) then True
      else if cdpEndpoint s \<noteq> Some endpoint then True
      else if \<not> isCdpConnectionAlive w s then True
      else False)"

text \<open>The loops of \<open>connectViaCDP\<close> that commit the contexts and the pages found.\<close>

definition adoptContexts :: "browser_context list \<Rightarrow> state \<Rightarrow> state" where
  "adoptContexts cs s =
     foldl (\<lambda>t c. (call (SetDefaultTimeout c 10000) t)\<lparr>contexts := contexts t @ [c]\<rparr>) s cs"

definition adoptPages :: "page list \<Rightarrow> state \<Rightarrow> state" where
  "adoptPages ps s = foldl (\<lambda>t p. t\<lparr>pages := pages t @ [p]\<rparr>) s ps"

definition connectViaCDP :: "env \<Rightarrow> string option \<Rightarrow> state \<Rightarrow> unit result \<times> state" where
  "connectViaCDP w endpoint s =
     (if \<not> truthy endpoint then (Inl (Error ''CDP endpoint is required for CDP connection''), s)
      else
        (let ep = the endpoint;
             url = (if startsWith ep ''ws://'' \<or> startsWith ep ''wss://''
                       \<or> startsWith ep ''http://'' \<or> startsWith ep ''https://''
                    then ep else ''http://localhost:'' @ ep)
         in (case attempt w (ConnectOverCDP url) s of
               (Inl e, s1) \<Rightarrow>
                 (Inl (Error (''Failed to connect via CDP to '' @ url @ ''. ''
                        @ (if includesStr url ''localhost''
                           then ''Make sure the app is running with --remote-debugging-port='' @ ep
                           else ''Make sure the remote browser is accessible and the URL is correct.''))),
                  s1)
             | (Inr u, s1) \<Rightarrow>
                 (let b = connected w (calls s) url;
                      cs = browserContexts w b
                  in if length cs = 0
                     then (Inl (Error ''No browser context found. Make sure the app has an open window.''),
                           attemptCatch w (BrowserClose b) s1)
                     else
                       (let allPages = filter (\<lambda>p. pageUrl w p \<noteq> []) (concat (map (contextPages w) cs))
                        in if length allPages = 0
                           then (Inl (Error ''No page found. Make sure the app has loaded content.''),
                                 attemptCatch w (BrowserClose b) s1)
                           else
                             (let s2 = s1\<lparr>browser := Some b, cdpEndpoint := Some ep\<rparr>;
                                  s3 = adoptPages allPages (adoptContexts cs s2)
                              in (Inr (), s3\<lparr>activePageIndex := 0\<rparr>)))))))"

definition joinAll :: "env \<Rightarrow> string list \<Rightarrow> string" where
  "joinAll w segs = foldr (\<lambda>a b. if b = [] then a else a @ pathSep w @ b) segs []"

definition getChromeUserDataDirs :: "env \<Rightarrow> string list" where
  "getChromeUserDataDirs w =
     (let home = homedir w
      in if platform w = ''darwin''
         then [joinAll w [home, ''Library'', ''Application Support'', ''Google'', ''Chrome''],
               joinAll w [home, ''Library'', ''Application Support'', ''Google'', ''Chrome Canary''],
               joinAll w [home, ''Library'', ''Application Support'', ''Chromium'']]
         else if platform w = ''win32''
         then (let localAppData = (case getenv w ''LOCALAPPDATA'' of
                                     Some v \<Rightarrow> v
                                   | None \<Rightarrow> joinAll w [home, ''AppData'', ''Local''])
               in [joinAll w [localAppData, ''Google'', ''Chrome'', ''User Data''],
                   joinAll w [localAppData, ''Google'', ''Chrome SxS'', ''User Data''],
                   joinAll w [localAppData, ''Chromium'', ''User Data'']])
         else [joinAll w [home, ''.config'', ''google-chrome''],
               joinAll w [home, ''.config'', ''google-chrome-unstable''],
               joinAll w [home, ''.config'', ''chromium'']])"

text \<open>
  The two discovery loops of \<open>autoConnectViaCDP\<close>. \<open>devToolsActivePort\<close> is the port that
  \<open>readDevToolsActivePort\<close> reads from a user data directory and \<open>debuggerUrl\<close> is the answer
  of \<open>probeDebugPort\<close>. A loop yields \<open>None\<close> when it falls through to what follows it.
\<close>

fun autoConnectDirs :: "env \<Rightarrow> string list \<Rightarrow> state \<Rightarrow> (unit result) option \<times> state" where
  "autoConnectDirs w [] s = (None, s)"
| "autoConnectDirs w (dir # dirs) s =
     (case devToolsActivePort w dir of
        None \<Rightarrow> autoConnectDirs w dirs s
      | Some port \<Rightarrow>
          (let s1 = call (ProbeDebugPort port) s
           in if truthy (debuggerUrl w (calls s) port)
              then (case connectViaCDP w (debuggerUrl w (calls s) port) s1 of
                      (r, s2) \<Rightarrow> (Some r, s2))
              else (case connectViaCDP w (Some (''http://127.0.0.1:'' @ showNat port)) s1 of
                      (Inr u, s2) \<Rightarrow> (Some (Inr ()), s2)
                    | (Inl e, s2) \<Rightarrow> autoConnectDirs w dirs s2)))"

fun autoConnectPorts :: "env \<Rightarrow> nat list \<Rightarrow> state \<Rightarrow> (unit result) option \<times> state" where
  "autoConnectPorts w [] s = (None, s)"
| "autoConnectPorts w (port # ports) s =
     (let s1 = call (ProbeDebugPort port) s
      in if truthy (debuggerUrl w (calls s) port)
         then (case connectViaCDP w (debuggerUrl w (calls s) port) s1 of
                 (r, s2) \<Rightarrow> (Some r, s2))
         else autoConnectPorts w ports s1)"

definition chromeHint :: "env \<Rightarrow> string" where
  "chromeHint w =
     (if platform w = ''darwin''
      then ''Start Chrome with: /Applications/Google'' @ [CHR 0x5C]
           @ '' Chrome.app/Contents/MacOS/Google'' @ [CHR 0x5C]
           @ '' Chrome --remote-debugging-port=9222''
      else if platform w = ''win32''
      then ''Start Chrome with: chrome.exe --remote-debugging-port=9222''
      else ''Start Chrome with: google-chrome --remote-debugging-port=9222'')
     @ [CHR 0x0A]
     @ ''Or enable remote debugging in Chrome 144+ at chrome://inspect/#remote-debugging''"

definition autoConnectViaCDP :: "env \<Rightarrow> state \<Rightarrow> unit result \<times> state" where
  "autoConnectViaCDP w s =
     (case autoConnectDirs w (getChromeUserDataDirs w) s of
        (Some r, s1) \<Rightarrow> (r, s1)
      | (None, s1) \<Rightarrow>
          (case autoConnectPorts w [9222, 9229] s1 of
             (Some r, s2) \<Rightarrow> (r, s2)
           | (None, s2) \<Rightarrow>
               (Inl (Error (''No running Chrome instance with remote debugging found.''
                            @ [CHR 0x0A] @ chromeHint w)), s2)))"

subsection \<open>Remote providers\<close>

text \<open>\<open>pages[0] ?? (await context.newPage())\<close>.\<close>

definition firstPageOrNew :: "env \<Rightarrow> browser_context \<Rightarrow> state \<Rightarrow> page \<times> state" where
  "firstPageOrNew w c s =
     (case contextPages w c of
        p # ps \<Rightarrow> (p, s)
      | [] \<Rightarrow> (newPageOf w (calls s) c, call (NewPage c) s))"

definition connectToBrowserbase :: "env \<Rightarrow> state \<Rightarrow> unit result \<times> state" where
  "connectToBrowserbase w s =
     (let apiKey = getenv w ''BROWSERBASE_API_KEY'';
          projectId = getenv w ''BROWSERBASE_PROJECT_ID''
      in if \<not> truthy apiKey \<or> \<not> truthy projectId
         then (Inl (Error (''BROWSERBASE_API_KEY and BROWSERBASE_PROJECT_ID are required ''
                           @ ''when using browserbase as a provider'')), s)
         else
           (let s1 = call (CreateSession Browserbase) s
            in (case createResponse w (calls s) Browserbase of
                  NotOk statusText \<Rightarrow>
                    (Inl (Error (''Failed to create Browserbase session: '' @ statusText)), s1)
                | Unparsable m \<Rightarrow> (Inl (Error m), s1)
                | Session sid connectUrl \<Rightarrow>
                    (case attempt w (ConnectOverCDP connectUrl) s1 of
                       (Inl e, s2) \<Rightarrow>
                         (Inl (Error ''Failed to connect to Browserbase session via CDP''), s2)
                     | (Inr u, s2) \<Rightarrow>
                         (let b = connected w (calls s1) connectUrl
                          in (case browserContexts w b of
                                [] \<Rightarrow>
                                  (Inl (Error ''No browser context found in Browserbase session''),
                                   attemptCatch w (CloseSession Browserbase sid (the apiKey)) s2)
                              | c # cs \<Rightarrow>
                                  (case firstPageOrNew w c s2 of
                                     (p, s3) \<Rightarrow>
                                       (let s4 = s3\<lparr>browserbaseSessionId := Some sid,
                                                       browserbaseApiKey := apiKey,
                                                       browser := Some b\<rparr>;
                                            s5 = call (SetDefaultTimeout c 10000) s4;
                                            s6 = s5\<lparr>contexts := contexts s5 @ [c],
                                                    pages := pages s5 @ [p],
                                                    activePageIndex := 0\<rparr>
                                        in (Inr (), s6)))))))))"

definition findOrCreateKernelProfile :: "env \<Rightarrow> string \<Rightarrow> state \<Rightarrow> unit result \<times> state" where
  "findOrCreateKernelProfile w profileName s =
     (let s1 = call (KernelProfileGet profileName) s
      in (case profileResponse w (calls s) profileName of
            (ok, status, statusText) \<Rightarrow>
              if ok then (Inr (), s1)
              else if status \<noteq> 404
              then (Inl (Error (''Failed to check Kernel profile: '' @ statusText)), s1)
              else
                (let s2 = call (KernelProfileCreate profileName) s1
                 in (case profileCreateResponse w (calls s1) profileName of
                       (ok2, statusText2) \<Rightarrow>
                         if \<not> ok2
                         then (Inl (Error (''Failed to create Kernel profile: '' @ statusText2)), s2)
                         else (Inr (), s2)))))"

text \<open>
  The \<open>try\<close> block shared in shape by \<open>connectToKernel\<close> and \<open>connectToBrowserUse\<close>: take the
  first context and page of the remote browser, or create them.
\<close>

definition firstContextAndPage ::
  "env \<Rightarrow> browser \<Rightarrow> state \<Rightarrow> (browser_context \<times> page) \<times> state" where
  "firstContextAndPage w b s =
     (case browserContexts w b of
        [] \<Rightarrow>
          (let c = newContextOf w (calls s) b;
               s1 = call (NewContext b) s;
               p = newPageOf w (calls s1) c
           in ((c, p), call (NewPage c) s1))
      | c # cs \<Rightarrow> (case firstPageOrNew w c s of (p, s1) \<Rightarrow> ((c, p), s1)))"

definition connectToKernel :: "env \<Rightarrow> state \<Rightarrow> unit result \<times> state" where
  "connectToKernel w s =
     (let apiKey = getenv w ''KERNEL_API_KEY''
      in if \<not> truthy apiKey
         then (Inl (Error ''KERNEL_API_KEY is required when using kernel as a provider''), s)
         else
           andThen (if truthy (getenv w ''KERNEL_PROFILE_NAME'')
                    then findOrCreateKernelProfile w (the (getenv w ''KERNEL_PROFILE_NAME'')) s
                    else (Inr (), s))
             (\<lambda>u s0.
                (let s1 = call (CreateSession Kernel) s0
                 in (case createResponse w (calls s0) Kernel of
                       NotOk statusText \<Rightarrow>
                         (Inl (Error (''Failed to create Kernel session: '' @ statusText)), s1)
                     | Unparsable m \<Rightarrow>
                         (Inl (Error (''Failed to parse Kernel session response: '' @ m)), s1)
                     | Session sid url \<Rightarrow>
                         if sid = [] \<or> url = []
                         then (Inl (Error (''Invalid Kernel session response: missing ''
                                           @ (if sid = [] then ''session_id'' else ''cdp_ws_url''))), s1)
                         else
                           (case attempt w (ConnectOverCDP url) s1 of
                              (Inl e, s2) \<Rightarrow>
                                (Inl (Error ''Failed to connect to Kernel session via CDP''), s2)
                            | (Inr u, s2) \<Rightarrow>
                                (let b = connected w (calls s1) url
                                 in (case firstContextAndPage w b s2 of
                                       ((c, p), s3) \<Rightarrow>
                                         (let s4 = s3\<lparr>kernelSessionId := Some sid,
                                                         kernelApiKey := apiKey,
                                                         browser := Some b\<rparr>;
                                              s5 = call (SetDefaultTimeout c 60000) s4;
                                              s6 = s5\<lparr>contexts := contexts s5 @ [c],
                                                      pages := pages s5 @ [p],
                                                      activePageIndex := 0\<rparr>
                                          in (Inr (), s6)))))))))"

definition connectToBrowserUse :: "env \<Rightarrow> state \<Rightarrow> unit result \<times> state" where
  "connectToBrowserUse w s =
     (let apiKey = getenv w ''BROWSER_USE_API_KEY''
      in if \<not> truthy apiKey
         then (Inl (Error ''BROWSER_USE_API_KEY is required when using browseruse as a provider''), s)
         else
           (let s1 = call (CreateSession BrowserUse) s
            in (case createResponse w (calls s) BrowserUse of
                  NotOk statusText \<Rightarrow>
                    (Inl (Error (''Failed to create Browser Use session: '' @ statusText)), s1)
                | Unparsable m \<Rightarrow>
                    (Inl (Error (''Failed to parse Browser Use session response: '' @ m)), s1)
                | Session sid url \<Rightarrow>
                    if sid = [] \<or> url = []
                    then (Inl (Error (''Invalid Browser Use session response: missing ''
                                      @ (if sid = [] then ''id'' else ''cdpUrl''))), s1)
                    else
                      (case attempt w (ConnectOverCDP url) s1 of
                         (Inl e, s2) \<Rightarrow>
                           (Inl (Error ''Failed to connect to Browser Use session via CDP''), s2)
                       | (Inr u, s2) \<Rightarrow>
                           (let b = connected w (calls s1) url
                            in (case firstContextAndPage w b s2 of
                                  ((c, p), s3) \<Rightarrow>
                                    (let s4 = s3\<lparr>browserUseSessionId := Some sid,
                                                    browserUseApiKey := apiKey,
                                                    browser := Some b\<rparr>;
                                         s5 = call (SetDefaultTimeout c 60000) s4;
                                         s6 = s5\<lparr>contexts := contexts s5 @ [c],
                                                 pages := pages s5 @ [p],
                                                 activePageIndex := 0\<rparr>
                                     in (Inr (), s6))))))))"

subsection \<open>Launch\<close>

definition hasExtensions :: "launch_command \<Rightarrow> bool" where
  "hasExtensions opts = (case extensions opts of Some xs \<Rightarrow> 0 < length xs | None \<Rightarrow> False)"

definition hasProfile :: "launch_command \<Rightarrow> bool" where
  "hasProfile opts = truthy (profile opts)"

definition hasStorageState :: "launch_command \<Rightarrow> bool" where
  "hasStorageState opts =
     (case storageState opts of
        Some (StatePath f) \<Rightarrow> f \<noteq> []
      | Some StateObject \<Rightarrow> True
      | None \<Rightarrow> False)"

text \<open>\<open>options.cdpUrl ?? (options.cdpPort ? String(options.cdpPort) : undefined)\<close>.\<close>

definition requestedEndpoint :: "launch_command \<Rightarrow> string option" where
  "requestedEndpoint opts =
     (case cdpUrl opts of
        Some u \<Rightarrow> Some u
      | None \<Rightarrow> (case cdpPort opts of
                   Some n \<Rightarrow> if n \<noteq> 0 then Some (showNat n) else None
                 | None \<Rightarrow> None))"

text \<open>\<open>profile.replace(/^~\//, os.homedir() + '/')\<close>.\<close>

definition expandHome :: "env \<Rightarrow> string \<Rightarrow> string" where
  "expandHome w f = (if startsWith f ''~/'' then homedir w @ ''/'' @ drop 2 f else f)"

text \<open>The warnings that loading the auto-load state file pushes to \<open>launchWarnings\<close>.\<close>

definition stateWarnings :: "env \<Rightarrow> launch_command \<Rightarrow> string list" where
  "stateWarnings w opts =
     (if \<not> hasStorageState opts \<and> truthy (autoStateFilePath opts)
      then (case stateFile w (the (autoStateFilePath opts)) of
              EncryptedBadKey \<Rightarrow>
                [''Failed to decrypt state file - wrong encryption key? Starting fresh.'']
            | EncryptedNoKey \<Rightarrow>
                [''State file is encrypted but '' @ encryptionKeyEnv w @ '' not set - starting fresh'']
            | _ \<Rightarrow> [])
      else [])"

text \<open>
  The three ways a local launch obtains its context: a persistent context in a temp
  directory for extensions, a persistent context in the profile directory, or a browser
  with a fresh context.
\<close>

definition openLocalContext ::
  "env \<Rightarrow> launch_command \<Rightarrow> string \<Rightarrow> state \<Rightarrow> browser_context \<times> state" where
  "openLocalContext w opts launcher s =
     (if hasExtensions opts
      then (launchedPersistent w (calls s),
            (call (LaunchPersistentContext launcher
                     (pathJoin w (tmpdir w) (''agent-browser-ext-'' @ sessionName w))) s)
              \<lparr>isPersistentContext := True\<rparr>)
      else if hasProfile opts
      then (launchedPersistent w (calls s),
            (call (LaunchPersistentContext launcher (expandHome w (the (profile opts)))) s)
              \<lparr>isPersistentContext := True\<rparr>)
      else
        (let b = launched w (calls s);
             s1 = (call (LaunchBrowser launcher) s)\<lparr>browser := Some b, cdpEndpoint := None\<rparr>;
             s2 = s1\<lparr>launchWarnings := launchWarnings s1 @ stateWarnings w opts\<rparr>
         in (newContextOf w (calls s2) b, call (NewContext b) s2)))"

text \<open>
  What follows for the context obtained: it is tracked, its first page (or a new one) is
  tracked unless it already is, and the last page becomes the active one.
\<close>

definition registerLocalContext :: "env \<Rightarrow> browser_context \<Rightarrow> state \<Rightarrow> state" where
  "registerLocalContext w context s =
     (let s1 = call (SetDefaultTimeout context 60000) s;
          s2 = s1\<lparr>contexts := contexts s1 @ [context]\<rparr>
      in (case firstPageOrNew w context s2 of
            (p, s3) \<Rightarrow>
              (let s4 = (if p \<notin> set (pages s3) then s3\<lparr>pages := pages s3 @ [p]\<rparr> else s3)
               in s4\<lparr>activePageIndex :=
                       (if 0 < length (pages s4) then int (length (pages s4)) - 1 else 0)\<rparr>)))"

text \<open>
  The local launch: the rest of \<open>launch\<close> once no endpoint, no auto-connect and no provider
  was chosen. The two engine checks are its first statements.
\<close>

definition launchLocal :: "env \<Rightarrow> launch_command \<Rightarrow> state \<Rightarrow> unit result \<times> state" where
  "launchLocal w opts s =
     (let browserType = (case browserOption opts of Some b \<Rightarrow> b | None \<Rightarrow> ''chromium'')
      in if hasExtensions opts \<and> browserType \<noteq> ''chromium''
         then (Inl (Error ''Extensions are only supported in Chromium''), s)
         else if allowFileAccess opts \<and> browserType \<noteq> ''chromium''
         then (Inl (Error ''allowFileAccess is only supported in Chromium''), s)
         else
           (let launcher = (if browserType = ''firefox'' then ''firefox''
                            else if browserType = ''webkit'' then ''webkit'' else ''chromium'')
            in (case openLocalContext w opts launcher s of
                  (context, s1) \<Rightarrow> (Inr (), registerLocalContext w context s1))))"

text \<open>The choice of a connection strategy, after the already-launched check.\<close>

definition launchRoute :: "env \<Rightarrow> launch_command \<Rightarrow> state \<Rightarrow> unit result \<times> state" where
  "launchRoute w opts s =
     (if truthy (requestedEndpoint opts) then connectViaCDP w (requestedEndpoint opts) s
      else if autoConnect opts then autoConnectViaCDP w s
      else
        (let prov = (case provider opts of
                       Some v \<Rightarrow> Some v
                     | None \<Rightarrow> getenv w ''AGENT_BROWSER_PROVIDER'')
         in if prov = Some ''browserbase'' then connectToBrowserbase w s
            else if prov = Some ''browseruse'' then connectToBrowserUse w s
            else if prov = Some ''kernel'' then connectToKernel w s
            else launchLocal w opts s))"

definition needsRelaunch :: "env \<Rightarrow> launch_command \<Rightarrow> state \<Rightarrow> bool" where
  "needsRelaunch w opts s =
     ((\<not> truthy (requestedEndpoint opts) \<and> \<not> autoConnect opts \<and> cdpEndpoint s \<noteq> None)
      \<or> (truthy (requestedEndpoint opts) \<and> needsCdpReconnect w (the (requestedEndpoint opts)) s)
      \<or> (autoConnect opts \<and> \<not> isCdpConnectionAlive w s))"

definition launch :: "env \<Rightarrow> launch_command \<Rightarrow> state \<Rightarrow> unit result \<times> state" where
  "launch w opts s =
     (if hasExtensions opts \<and> truthy (requestedEndpoint opts)
      then (Inl (Error ''Extensions cannot be used with CDP connection''), s)
      else if hasProfile opts \<and> truthy (requestedEndpoint opts)
      then (Inl (Error ''Profile cannot be used with CDP connection''), s)
      else if hasStorageState opts \<and> hasProfile opts
      then (Inl (Error (''Storage state cannot be used with profile ''
                        @ ''(profile is already persistent storage)'')), s)
      else if hasStorageState opts \<and> hasExtensions opts
      then (Inl (Error (''Storage state cannot be used with extensions ''
                        @ ''(extensions require persistent context)'')), s)
      else if isLaunched s
      then (if needsRelaunch w opts s
            then andThen (close w s) (\<lambda>u s1. launchRoute w opts s1)
            else (Inr (), s))
      else launchRoute w opts s)"

section \<open>Reachable states\<close>

text \<open>
  The public operations modelled above and the two engine events. A state is reachable when
  a fresh manager gets to it by operations and events, each under any behaviour of the
  outside world.
\<close>

datatype operation =
    Launch launch_command
  | Close
  | EnsurePage
  | NewTab
  | NewWindow
  | SwitchTo int
  | CloseTab "int option"
  | GetCDPSession
  | StartScreencast nat
  | StopScreencast
  | StartRecording string "string option"
  | StopRecording
  | RestartRecording string "string option"
  | SetScopedHeaders string headers
  | PageClosed page
  | PageOpened page

fun perform :: "env \<Rightarrow> operation \<Rightarrow> state \<Rightarrow> state" where
  "perform w (Launch opts) s = snd (launch w opts s)"
| "perform w Close s = snd (close w s)"
| "perform w EnsurePage s = snd (ensurePage w s)"
| "perform w NewTab s = snd (newTab w s)"
| "perform w NewWindow s = snd (newWindow w s)"
| "perform w (SwitchTo i) s = snd (switchTo w i s)"
| "perform w (CloseTab i) s = snd (closeTab w i s)"
| "perform w GetCDPSession s = snd (getCDPSession w s)"
| "perform w (StartScreencast cb) s = snd (startScreencast w cb s)"
| "perform w StopScreencast s = snd (stopScreencast w s)"
| "perform w (StartRecording f u) s = snd (startRecording w f u s)"
| "perform w StopRecording s = snd (stopRecording w s)"
| "perform w (RestartRecording f u) s = snd (restartRecording w f u s)"
| "perform w (SetScopedHeaders origin hs) s = snd (setScopedHeaders w origin hs s)"
| "perform w (PageClosed p) s = onPageClose p s"
| "perform w (PageOpened p) s = onContextPage w p s"


text \<open>A run: a sequence of operations and events, each with the world it meets.\<close>

definition run :: "(env \<times> operation) list \<Rightarrow> state \<Rightarrow> state" where
  "run steps s = foldl (\<lambda>t (w, op). perform w op t) s steps"

section \<open>Notions used to state the properties\<close>





section \<open>Predicates used in the proofs\<close>

text \<open>
  What every reachable state satisfies: the active index is not negative; a persistent
  context comes without a browser handle and with a tracked context; without a browser
  handle there is no recording; the recording context and the recording page are set and
  reset together, and with them the temp directory.
\<close>

definition wellFormed :: "state \<Rightarrow> bool" where
  "wellFormed s =
     (0 \<le> activePageIndex s
      \<and> (isPersistentContext s \<longrightarrow> browser s = None \<and> contexts s \<noteq> [])
      \<and> (browser s = None \<longrightarrow> recordingContext s = None)
      \<and> (recordingContext s = None \<longleftrightarrow> recordingPage s = None)
      \<and> (recordingContext s \<noteq> None \<longrightarrow> recordingTempDir s \<noteq> []))"






definition afterScreencast :: "env \<Rightarrow> state \<Rightarrow> state" where
  "afterScreencast w s = (if screencastActive s then snd (stopScreencast w s) else s)"

text \<open>
  What a connection procedure may change of the fields that \<open>wellFormed\<close> speaks of.
\<close>

definition wfStep :: "state \<Rightarrow> state \<Rightarrow> bool" where
  "wfStep s t =
     (isPersistentContext t = isPersistentContext s
      \<and> recordingContext t = recordingContext s
      \<and> recordingPage t = recordingPage s
      \<and> recordingTempDir t = recordingTempDir s
      \<and> (browser t = browser s \<or> browser t \<noteq> None)
      \<and> (0 \<le> activePageIndex s \<longrightarrow> 0 \<le> activePageIndex t))"

section \<open>Concrete worlds and inputs\<close>

text \<open>
  A world in which every call completes, every new handle is numbered by the calls made
  before it, pages are blank, no file exists and the environment is empty.
\<close>

definition quietWorld :: env where
  "quietWorld = \<lparr> rejects = (\<lambda>cs e. None),
     launched = (\<lambda>cs. Browser (length cs)),
     launchedPersistent = (\<lambda>cs. BrowserContext (length cs)),
     connected = (\<lambda>cs u. Browser (length cs)),
     browserContexts = (\<lambda>b. []),
     contextPages = (\<lambda>c. []),
     isConnected = (\<lambda>b. True),
     newContextOf = (\<lambda>cs b. BrowserContext (length cs)),
     newPageOf = (\<lambda>cs c. Page (length cs)),
     newCDPSessionOf = (\<lambda>cs p. CDPSession (length cs)),
     pageUrl = (\<lambda>p. ''about:blank''),
     pageVideo = (\<lambda>p. True),
     existsSync = (\<lambda>f. False),
     getenv = (\<lambda>v. None),
     tmpdir = ''/tmp'',
     homedir = ''/home/user'',
     pathSep = ''/'',
     platform = ''linux'',
     dateNow = (\<lambda>cs. length cs),
     urlHost = (\<lambda>u. if startsWith u ''https://'' then Some (drop 8 u) else None),
     createResponse = (\<lambda>cs p. NotOk ''Unauthorized''),
     profileResponse = (\<lambda>cs n. (True, 200, ''OK'')),
     profileCreateResponse = (\<lambda>cs n. (True, ''OK'')),
     devToolsActivePort = (\<lambda>d. None),
     debuggerUrl = (\<lambda>cs n. None),
     stateFile = (\<lambda>f. NoStateFile),
     encryptionKeyEnv = ''AGENT_BROWSER_ENCRYPTION_KEY'' \<rparr>"

text \<open>The same world, except that saving a video fails.\<close>

definition saveFails :: env where
  "saveFails = quietWorld\<lparr>rejects :=
     (\<lambda>cs e. case e of VideoSaveAs p f \<Rightarrow> Some ''ENOSPC: no space left on device'' | _ \<Rightarrow> None)\<rparr>"

text \<open>
  A world with a debuggable browser at port 9222 that has one context with one loaded page.
\<close>

definition debuggableWorld :: env where
  "debuggableWorld = quietWorld\<lparr>
     browserContexts := (\<lambda>b. [BrowserContext 100]),
     contextPages := (\<lambda>c. [Page 100]),
     pageUrl := (\<lambda>p. ''https://example.com/'')\<rparr>"

text \<open>\<open>launch({})\<close>, and the same with one option set.\<close>

definition plainLaunch :: launch_command where
  "plainLaunch = \<lparr> cdpUrl = None, cdpPort = None, extensions = None, profile = None,
     storageState = None, autoConnect = False, provider = None, browserOption = None,
     allowFileAccess = False, autoStateFilePath = None \<rparr>"

text \<open>The calls of one state continue those of another; they begin with a given call; they
  begin with a given call and contain another one after it.\<close>

definition grows :: "state \<Rightarrow> state \<Rightarrow> bool" where
  "grows s t = (\<exists>cs. calls t = calls s @ cs)"

definition calledFirst :: "state \<Rightarrow> effect \<Rightarrow> state \<Rightarrow> bool" where
  "calledFirst s e t = (\<exists>cs. calls t = calls s @ e # cs)"


text \<open>Launch commands: a profile, a debugging port, another engine with file access, a
  debugging port together with a profile.\<close>

definition profileLaunch :: launch_command where
  "profileLaunch = plainLaunch\<lparr>profile := Some ''~/work''\<rparr>"

definition cdpLaunch :: launch_command where
  "cdpLaunch = plainLaunch\<lparr>cdpPort := Some 9222\<rparr>"

definition firefoxFileAccess :: launch_command where
  "firefoxFileAccess = plainLaunch\<lparr>browserOption := Some ''firefox'', allowFileAccess := True\<rparr>"

definition cdpWithProfile :: launch_command where
  "cdpWithProfile = plainLaunch\<lparr>cdpPort := Some 9222, profile := Some ''~/work''\<rparr>"

text \<open>
  States that the operations reach from a fresh manager: after \<open>launch({})\<close>; after a new
  tab; after the only page was closed from outside; with a screencast running; with a
  recording running; after a \<open>stopRecording\<close> whose video could not be saved; after a launch
  with a profile; after attaching to the debuggable browser.
\<close>

definition launchedState :: state where
  "launchedState = initial\<lparr>browser := Some (Browser 0), contexts := [BrowserContext 1],
     pages := [Page 3], activePageIndex := 0,
     calls := [LaunchBrowser ''chromium'', NewContext (Browser 0),
               SetDefaultTimeout (BrowserContext 1) 60000, NewPage (BrowserContext 1)]\<rparr>"

definition twoTabsState :: state where
  "twoTabsState = launchedState\<lparr>pages := [Page 3, Page 4], activePageIndex := 1,
     calls := calls launchedState @ [NewPage (BrowserContext 1)]\<rparr>"

definition emptiedState :: state where
  "emptiedState = launchedState\<lparr>pages := []\<rparr>"

definition screencastState :: state where
  "screencastState = launchedState\<lparr>cdpSession := Some (CDPSession 4), screencastActive := True,
     frameCallback := Some 7, screencastFrameHandler := Some 0, closures := 1,
     calls := calls launchedState @ [NewCDPSession (Page 3),
        CdpOn (CDPSession 4) ''Page.screencastFrame'' 0,
        CdpSend (CDPSession 4) ''Page.startScreencast'']\<rparr>"

definition recordingState :: state where
  "recordingState = launchedState\<lparr>contexts := [BrowserContext 1, BrowserContext 6],
     pages := [Page 3, Page 8], activePageIndex := 1,
     recordingContext := Some (BrowserContext 6), recordingPage := Some (Page 8),
     recordingOutputPath := ''out.webm'',
     recordingTempDir := ''/tmp/agent-browser-recording-default-5'',
     calls := calls launchedState @ [StorageState (BrowserContext 1),
        MkdirSync ''/tmp/agent-browser-recording-default-5'',
        NewContext (Browser 0), SetDefaultTimeout (BrowserContext 6) 10000,
        NewPage (BrowserContext 6)]\<rparr>"

definition staleIndexState :: state where
  "staleIndexState = launchedState\<lparr>activePageIndex := 1,
     calls := calls recordingState @ [PageClose (Page 8), VideoSaveAs (Page 8) ''out.webm'',
        RmSync ''/tmp/agent-browser-recording-default-5'']\<rparr>"

definition persistentState :: state where
  "persistentState = initial\<lparr>isPersistentContext := True, contexts := [BrowserContext 0],
     pages := [Page 2], activePageIndex := 0,
     calls := [LaunchPersistentContext ''chromium'' ''/home/user/work'',
               SetDefaultTimeout (BrowserContext 0) 60000, NewPage (BrowserContext 0)]\<rparr>"

definition cdpSessionState :: state where
  "cdpSessionState = initial\<lparr>browser := Some (Browser 0), cdpEndpoint := Some ''9222'',
     contexts := [BrowserContext 100], pages := [Page 100], activePageIndex := 0,
     calls := [ConnectOverCDP ''http://localhost:9222'',
               SetDefaultTimeout (BrowserContext 100) 10000]\<rparr>"
section \<open>Properties of the array operations and of the helper steps\<close>







lemma length_splice1_le: "length (splice1 i xs) \<le> length xs"
  by (auto simp: splice1_def Let_def min_def max_def)

lemma at_Some_mem: "at xs i = Some x \<Longrightarrow> x \<in> set xs"
  by (auto simp: at_def split: if_splits)


lemma call_frame [simp]:
  "browser (call e s) = browser s"
  "cdpEndpoint (call e s) = cdpEndpoint s"
  "isPersistentContext (call e s) = isPersistentContext s"
  "browserbaseSessionId (call e s) = browserbaseSessionId s"
  "browserbaseApiKey (call e s) = browserbaseApiKey s"
  "browserUseSessionId (call e s) = browserUseSessionId s"
  "browserUseApiKey (call e s) = browserUseApiKey s"
  "kernelSessionId (call e s) = kernelSessionId s"
  "kernelApiKey (call e s) = kernelApiKey s"
  "contexts (call e s) = contexts s"
  "pages (call e s) = pages s"
  "activePageIndex (call e s) = activePageIndex s"
  "refMap (call e s) = refMap s"
  "lastSnapshot (call e s) = lastSnapshot s"
  "scopedHeaderRoutes (call e s) = scopedHeaderRoutes s"
  "recordingContext (call e s) = recordingContext s"
  "recordingPage (call e s) = recordingPage s"
  "recordingOutputPath (call e s) = recordingOutputPath s"
  "recordingTempDir (call e s) = recordingTempDir s"
  "launchWarnings (call e s) = launchWarnings s"
  "screencastActive (call e s) = screencastActive s"
  "frameCallback (call e s) = frameCallback s"
  "screencastFrameHandler (call e s) = screencastFrameHandler s"
  "cdpSession (call e s) = cdpSession s"
  "closures (call e s) = closures s"
  by (simp_all add: call_def)

lemma calls_call [simp]: "calls (call e s) = calls s @ [e]"
  by (simp add: call_def)

lemma attempt_frame [simp]:
  "browser (snd (attempt w e s)) = browser s"
  "cdpEndpoint (snd (attempt w e s)) = cdpEndpoint s"
  "isPersistentContext (snd (attempt w e s)) = isPersistentContext s"
  "browserbaseSessionId (snd (attempt w e s)) = browserbaseSessionId s"
  "browserbaseApiKey (snd (attempt w e s)) = browserbaseApiKey s"
  "browserUseSessionId (snd (attempt w e s)) = browserUseSessionId s"
  "browserUseApiKey (snd (attempt w e s)) = browserUseApiKey s"
  "kernelSessionId (snd (attempt w e s)) = kernelSessionId s"
  "kernelApiKey (snd (attempt w e s)) = kernelApiKey s"
  "contexts (snd (attempt w e s)) = contexts s"
  "pages (snd (attempt w e s)) = pages s"
  "activePageIndex (snd (attempt w e s)) = activePageIndex s"
  "refMap (snd (attempt w e s)) = refMap s"
  "lastSnapshot (snd (attempt w e s)) = lastSnapshot s"
  "scopedHeaderRoutes (snd (attempt w e s)) = scopedHeaderRoutes s"
  "recordingContext (snd (attempt w e s)) = recordingContext s"
  "recordingPage (snd (attempt w e s)) = recordingPage s"
  "recordingOutputPath (snd (attempt w e s)) = recordingOutputPath s"
  "recordingTempDir (snd (attempt w e s)) = recordingTempDir s"
  "launchWarnings (snd (attempt w e s)) = launchWarnings s"
  "screencastActive (snd (attempt w e s)) = screencastActive s"
  "frameCallback (snd (attempt w e s)) = frameCallback s"
  "screencastFrameHandler (snd (attempt w e s)) = screencastFrameHandler s"
  "cdpSession (snd (attempt w e s)) = cdpSession s"
  "closures (snd (attempt w e s)) = closures s"
  by (simp_all add: attempt_def split: option.splits)

lemma attemptCatch_frame [simp]:
  "browser (attemptCatch w e s) = browser s"
  "cdpEndpoint (attemptCatch w e s) = cdpEndpoint s"
  "isPersistentContext (attemptCatch w e s) = isPersistentContext s"
  "browserbaseSessionId (attemptCatch w e s) = browserbaseSessionId s"
  "browserbaseApiKey (attemptCatch w e s) = browserbaseApiKey s"
  "browserUseSessionId (attemptCatch w e s) = browserUseSessionId s"
  "browserUseApiKey (attemptCatch w e s) = browserUseApiKey s"
  "kernelSessionId (attemptCatch w e s) = kernelSessionId s"
  "kernelApiKey (attemptCatch w e s) = kernelApiKey s"
  "contexts (attemptCatch w e s) = contexts s"
  "pages (attemptCatch w e s) = pages s"
  "activePageIndex (attemptCatch w e s) = activePageIndex s"
  "refMap (attemptCatch w e s) = refMap s"
  "lastSnapshot (attemptCatch w e s) = lastSnapshot s"
  "scopedHeaderRoutes (attemptCatch w e s) = scopedHeaderRoutes s"
  "recordingContext (attemptCatch w e s) = recordingContext s"
  "recordingPage (attemptCatch w e s) = recordingPage s"
  "recordingOutputPath (attemptCatch w e s) = recordingOutputPath s"
  "recordingTempDir (attemptCatch w e s) = recordingTempDir s"
  "launchWarnings (attemptCatch w e s) = launchWarnings s"
  "screencastActive (attemptCatch w e s) = screencastActive s"
  "frameCallback (attemptCatch w e s) = frameCallback s"
  "screencastFrameHandler (attemptCatch w e s) = screencastFrameHandler s"
  "cdpSession (attemptCatch w e s) = cdpSession s"
  "closures (attemptCatch w e s) = closures s"
  by (simp_all add: attemptCatch_def)

lemma getCDPSession_frame [simp]:
  "browser (snd (getCDPSession w s)) = browser s"
  "cdpEndpoint (snd (getCDPSession w s)) = cdpEndpoint s"
  "isPersistentContext (snd (getCDPSession w s)) = isPersistentContext s"
  "browserbaseSessionId (snd (getCDPSession w s)) = browserbaseSessionId s"
  "browserbaseApiKey (snd (getCDPSession w s)) = browserbaseApiKey s"
  "browserUseSessionId (snd (getCDPSession w s)) = browserUseSessionId s"
  "browserUseApiKey (snd (getCDPSession w s)) = browserUseApiKey s"
  "kernelSessionId (snd (getCDPSession w s)) = kernelSessionId s"
  "kernelApiKey (snd (getCDPSession w s)) = kernelApiKey s"
  "contexts (snd (getCDPSession w s)) = contexts s"
  "pages (snd (getCDPSession w s)) = pages s"
  "activePageIndex (snd (getCDPSession w s)) = activePageIndex s"
  "refMap (snd (getCDPSession w s)) = refMap s"
  "lastSnapshot (snd (getCDPSession w s)) = lastSnapshot s"
  "scopedHeaderRoutes (snd (getCDPSession w s)) = scopedHeaderRoutes s"
  "recordingContext (snd (getCDPSession w s)) = recordingContext s"
  "recordingPage (snd (getCDPSession w s)) = recordingPage s"
  "recordingOutputPath (snd (getCDPSession w s)) = recordingOutputPath s"
  "recordingTempDir (snd (getCDPSession w s)) = recordingTempDir s"
  "launchWarnings (snd (getCDPSession w s)) = launchWarnings s"
  "screencastActive (snd (getCDPSession w s)) = screencastActive s"
  "frameCallback (snd (getCDPSession w s)) = frameCallback s"
  "screencastFrameHandler (snd (getCDPSession w s)) = screencastFrameHandler s"
  "closures (snd (getCDPSession w s)) = closures s"
  by (simp_all add: getCDPSession_def getPage_def Let_def split: option.splits sum.splits)

lemma stopScreencast_try_frame [simp]:
  "browser (snd (stopScreencast_try w s)) = browser s"
  "cdpEndpoint (snd (stopScreencast_try w s)) = cdpEndpoint s"
  "isPersistentContext (snd (stopScreencast_try w s)) = isPersistentContext s"
  "browserbaseSessionId (snd (stopScreencast_try w s)) = browserbaseSessionId s"
  "browserbaseApiKey (snd (stopScreencast_try w s)) = browserbaseApiKey s"
  "browserUseSessionId (snd (stopScreencast_try w s)) = browserUseSessionId s"
  "browserUseApiKey (snd (stopScreencast_try w s)) = browserUseApiKey s"
  "kernelSessionId (snd (stopScreencast_try w s)) = kernelSessionId s"
  "kernelApiKey (snd (stopScreencast_try w s)) = kernelApiKey s"
  "contexts (snd (stopScreencast_try w s)) = contexts s"
  "pages (snd (stopScreencast_try w s)) = pages s"
  "activePageIndex (snd (stopScreencast_try w s)) = activePageIndex s"
  "refMap (snd (stopScreencast_try w s)) = refMap s"
  "lastSnapshot (snd (stopScreencast_try w s)) = lastSnapshot s"
  "scopedHeaderRoutes (snd (stopScreencast_try w s)) = scopedHeaderRoutes s"
  "recordingContext (snd (stopScreencast_try w s)) = recordingContext s"
  "recordingPage (snd (stopScreencast_try w s)) = recordingPage s"
  "recordingOutputPath (snd (stopScreencast_try w s)) = recordingOutputPath s"
  "recordingTempDir (snd (stopScreencast_try w s)) = recordingTempDir s"
  "launchWarnings (snd (stopScreencast_try w s)) = launchWarnings s"
  "screencastActive (snd (stopScreencast_try w s)) = screencastActive s"
  "frameCallback (snd (stopScreencast_try w s)) = frameCallback s"
  "screencastFrameHandler (snd (stopScreencast_try w s)) = screencastFrameHandler s"
  "closures (snd (stopScreencast_try w s)) = closures s"
  by (simp_all add: stopScreencast_try_def Let_def case_prod_beta split: option.splits sum.splits)

lemma stopScreencast_frame [simp]:
  "browser (snd (stopScreencast w s)) = browser s"
  "cdpEndpoint (snd (stopScreencast w s)) = cdpEndpoint s"
  "isPersistentContext (snd (stopScreencast w s)) = isPersistentContext s"
  "browserbaseSessionId (snd (stopScreencast w s)) = browserbaseSessionId s"
  "browserbaseApiKey (snd (stopScreencast w s)) = browserbaseApiKey s"
  "browserUseSessionId (snd (stopScreencast w s)) = browserUseSessionId s"
  "browserUseApiKey (snd (stopScreencast w s)) = browserUseApiKey s"
  "kernelSessionId (snd (stopScreencast w s)) = kernelSessionId s"
  "kernelApiKey (snd (stopScreencast w s)) = kernelApiKey s"
  "contexts (snd (stopScreencast w s)) = contexts s"
  "pages (snd (stopScreencast w s)) = pages s"
  "activePageIndex (snd (stopScreencast w s)) = activePageIndex s"
  "refMap (snd (stopScreencast w s)) = refMap s"
  "lastSnapshot (snd (stopScreencast w s)) = lastSnapshot s"
  "scopedHeaderRoutes (snd (stopScreencast w s)) = scopedHeaderRoutes s"
  "recordingContext (snd (stopScreencast w s)) = recordingContext s"
  "recordingPage (snd (stopScreencast w s)) = recordingPage s"
  "recordingOutputPath (snd (stopScreencast w s)) = recordingOutputPath s"
  "recordingTempDir (snd (stopScreencast w s)) = recordingTempDir s"
  "launchWarnings (snd (stopScreencast w s)) = launchWarnings s"
  "closures (snd (stopScreencast w s)) = closures s"
  by (simp_all add: stopScreencast_def Let_def)

lemma detachCDPSession_frame [simp]:
  "browser (detachCDPSession s) = browser s"
  "cdpEndpoint (detachCDPSession s) = cdpEndpoint s"
  "isPersistentContext (detachCDPSession s) = isPersistentContext s"
  "browserbaseSessionId (detachCDPSession s) = browserbaseSessionId s"
  "browserbaseApiKey (detachCDPSession s) = browserbaseApiKey s"
  "browserUseSessionId (detachCDPSession s) = browserUseSessionId s"
  "browserUseApiKey (detachCDPSession s) = browserUseApiKey s"
  "kernelSessionId (detachCDPSession s) = kernelSessionId s"
  "kernelApiKey (detachCDPSession s) = kernelApiKey s"
  "contexts (detachCDPSession s) = contexts s"
  "pages (detachCDPSession s) = pages s"
  "activePageIndex (detachCDPSession s) = activePageIndex s"
  "refMap (detachCDPSession s) = refMap s"
  "lastSnapshot (detachCDPSession s) = lastSnapshot s"
  "scopedHeaderRoutes (detachCDPSession s) = scopedHeaderRoutes s"
  "recordingContext (detachCDPSession s) = recordingContext s"
  "recordingPage (detachCDPSession s) = recordingPage s"
  "recordingOutputPath (detachCDPSession s) = recordingOutputPath s"
  "recordingTempDir (detachCDPSession s) = recordingTempDir s"
  "launchWarnings (detachCDPSession s) = launchWarnings s"
  "screencastActive (detachCDPSession s) = screencastActive s"
  "frameCallback (detachCDPSession s) = frameCallback s"
  "screencastFrameHandler (detachCDPSession s) = screencastFrameHandler s"
  "closures (detachCDPSession s) = closures s"
  by (simp_all add: detachCDPSession_def split: option.splits)

lemma invalidateCDPSession_frame [simp]:
  "browser (snd (invalidateCDPSession w s)) = browser s"
  "cdpEndpoint (snd (invalidateCDPSession w s)) = cdpEndpoint s"
  "isPersistentContext (snd (invalidateCDPSession w s)) = isPersistentContext s"
  "browserbaseSessionId (snd (invalidateCDPSession w s)) = browserbaseSessionId s"
  "browserbaseApiKey (snd (invalidateCDPSession w s)) = browserbaseApiKey s"
  "browserUseSessionId (snd (invalidateCDPSession w s)) = browserUseSessionId s"
  "browserUseApiKey (snd (invalidateCDPSession w s)) = browserUseApiKey s"
  "kernelSessionId (snd (invalidateCDPSession w s)) = kernelSessionId s"
  "kernelApiKey (snd (invalidateCDPSession w s)) = kernelApiKey s"
  "contexts (snd (invalidateCDPSession w s)) = contexts s"
  "pages (snd (invalidateCDPSession w s)) = pages s"
  "activePageIndex (snd (invalidateCDPSession w s)) = activePageIndex s"
  "refMap (snd (invalidateCDPSession w s)) = refMap s"
  "lastSnapshot (snd (invalidateCDPSession w s)) = lastSnapshot s"
  "scopedHeaderRoutes (snd (invalidateCDPSession w s)) = scopedHeaderRoutes s"
  "recordingContext (snd (invalidateCDPSession w s)) = recordingContext s"
  "recordingPage (snd (invalidateCDPSession w s)) = recordingPage s"
  "recordingOutputPath (snd (invalidateCDPSession w s)) = recordingOutputPath s"
  "recordingTempDir (snd (invalidateCDPSession w s)) = recordingTempDir s"
  "launchWarnings (snd (invalidateCDPSession w s)) = launchWarnings s"
  "closures (snd (invalidateCDPSession w s)) = closures s"
  by (simp_all add: invalidateCDPSession_def case_prod_beta split: sum.splits)

lemma stopScreencast_ok [simp]: "fst (stopScreencast w s) = Inr ()"
  by (simp add: stopScreencast_def Let_def)

lemma invalidateCDPSession_ok [simp]: "fst (invalidateCDPSession w s) = Inr ()"
  by (simp add: invalidateCDPSession_def case_prod_beta split: sum.splits)



lemma snd_andThen: "snd (andThen r f) = (case fst r of Inl e \<Rightarrow> snd r | Inr x \<Rightarrow> snd (f x (snd r)))"
  by (simp add: andThen_def case_prod_beta split: sum.splits)



lemma trackNewPage_fields [simp]:
  "browser (trackNewPage p s) = browser s"
  "isPersistentContext (trackNewPage p s) = isPersistentContext s"
  "contexts (trackNewPage p s) = contexts s"
  "recordingContext (trackNewPage p s) = recordingContext s"
  "recordingPage (trackNewPage p s) = recordingPage s"
  "recordingTempDir (trackNewPage p s) = recordingTempDir s"
  "calls (trackNewPage p s) = calls s"
  by (simp_all add: trackNewPage_def Let_def)









lemma wf_invalidateCDPSession: "wellFormed s \<Longrightarrow> wellFormed (snd (invalidateCDPSession w s))"
  by (auto simp: wellFormed_def)


lemma attemptCatch_call: "attemptCatch w e s = call e s"
  by (simp add: attemptCatch_def attempt_def split: option.splits)

lemma foldl_call: "foldl (\<lambda>t x. call (g x) t) s xs = s\<lparr>calls := calls s @ map g xs\<rparr>"
  by (induction xs arbitrary: s) (simp_all add: call_def)

lemma captureStorageState_eq:
  "captureStorageState w s = s\<lparr>calls := calls (captureStorageState w s)\<rparr>"
  by (simp add: captureStorageState_def attemptCatch_call call_def)

lemma createRecordingTempDir_eq:
  "createRecordingTempDir w s =
     s\<lparr>recordingTempDir := recordingTempDir (createRecordingTempDir w s),
       calls := calls (createRecordingTempDir w s)\<rparr>"
  by (simp add: createRecordingTempDir_def Let_def call_def)


lemma createRecordingContext_eq:
  "createRecordingContext w b s =
     s\<lparr>recordingContext := recordingContext (createRecordingContext w b s),
       recordingPage := recordingPage (createRecordingContext w b s),
       calls := calls (createRecordingContext w b s)\<rparr>"
  by (simp add: createRecordingContext_def Let_def call_def)



lemma captureStorageState_frame [simp]:
  "browser (captureStorageState w s) = browser s"
  "cdpEndpoint (captureStorageState w s) = cdpEndpoint s"
  "isPersistentContext (captureStorageState w s) = isPersistentContext s"
  "browserbaseSessionId (captureStorageState w s) = browserbaseSessionId s"
  "browserbaseApiKey (captureStorageState w s) = browserbaseApiKey s"
  "browserUseSessionId (captureStorageState w s) = browserUseSessionId s"
  "browserUseApiKey (captureStorageState w s) = browserUseApiKey s"
  "kernelSessionId (captureStorageState w s) = kernelSessionId s"
  "kernelApiKey (captureStorageState w s) = kernelApiKey s"
  "contexts (captureStorageState w s) = contexts s"
  "pages (captureStorageState w s) = pages s"
  "activePageIndex (captureStorageState w s) = activePageIndex s"
  "refMap (captureStorageState w s) = refMap s"
  "lastSnapshot (captureStorageState w s) = lastSnapshot s"
  "scopedHeaderRoutes (captureStorageState w s) = scopedHeaderRoutes s"
  "recordingContext (captureStorageState w s) = recordingContext s"
  "recordingPage (captureStorageState w s) = recordingPage s"
  "recordingOutputPath (captureStorageState w s) = recordingOutputPath s"
  "recordingTempDir (captureStorageState w s) = recordingTempDir s"
  "launchWarnings (captureStorageState w s) = launchWarnings s"
  "screencastActive (captureStorageState w s) = screencastActive s"
  "frameCallback (captureStorageState w s) = frameCallback s"
  "screencastFrameHandler (captureStorageState w s) = screencastFrameHandler s"
  "cdpSession (captureStorageState w s) = cdpSession s"
  "closures (captureStorageState w s) = closures s"
  by (simp_all add: captureStorageState_def)

lemma createRecordingTempDir_frame [simp]:
  "browser (createRecordingTempDir w s) = browser s"
  "cdpEndpoint (createRecordingTempDir w s) = cdpEndpoint s"
  "isPersistentContext (createRecordingTempDir w s) = isPersistentContext s"
  "browserbaseSessionId (createRecordingTempDir w s) = browserbaseSessionId s"
  "browserbaseApiKey (createRecordingTempDir w s) = browserbaseApiKey s"
  "browserUseSessionId (createRecordingTempDir w s) = browserUseSessionId s"
  "browserUseApiKey (createRecordingTempDir w s) = browserUseApiKey s"
  "kernelSessionId (createRecordingTempDir w s) = kernelSessionId s"
  "kernelApiKey (createRecordingTempDir w s) = kernelApiKey s"
  "contexts (createRecordingTempDir w s) = contexts s"
  "pages (createRecordingTempDir w s) = pages s"
  "activePageIndex (createRecordingTempDir w s) = activePageIndex s"
  "refMap (createRecordingTempDir w s) = refMap s"
  "lastSnapshot (createRecordingTempDir w s) = lastSnapshot s"
  "scopedHeaderRoutes (createRecordingTempDir w s) = scopedHeaderRoutes s"
  "recordingContext (createRecordingTempDir w s) = recordingContext s"
  "recordingPage (createRecordingTempDir w s) = recordingPage s"
  "recordingOutputPath (createRecordingTempDir w s) = recordingOutputPath s"
  "launchWarnings (createRecordingTempDir w s) = launchWarnings s"
  "screencastActive (createRecordingTempDir w s) = screencastActive s"
  "frameCallback (createRecordingTempDir w s) = frameCallback s"
  "screencastFrameHandler (createRecordingTempDir w s) = screencastFrameHandler s"
  "cdpSession (createRecordingTempDir w s) = cdpSession s"
  "closures (createRecordingTempDir w s) = closures s"
  by (simp_all add: createRecordingTempDir_def Let_def)

lemma createRecordingContext_frame [simp]:
  "browser (createRecordingContext w b s) = browser s"
  "cdpEndpoint (createRecordingContext w b s) = cdpEndpoint s"
  "isPersistentContext (createRecordingContext w b s) = isPersistentContext s"
  "browserbaseSessionId (createRecordingContext w b s) = browserbaseSessionId s"
  "browserbaseApiKey (createRecordingContext w b s) = browserbaseApiKey s"
  "browserUseSessionId (createRecordingContext w b s) = browserUseSessionId s"
  "browserUseApiKey (createRecordingContext w b s) = browserUseApiKey s"
  "kernelSessionId (createRecordingContext w b s) = kernelSessionId s"
  "kernelApiKey (createRecordingContext w b s) = kernelApiKey s"
  "contexts (createRecordingContext w b s) = contexts s"
  "pages (createRecordingContext w b s) = pages s"
  "activePageIndex (createRecordingContext w b s) = activePageIndex s"
  "refMap (createRecordingContext w b s) = refMap s"
  "lastSnapshot (createRecordingContext w b s) = lastSnapshot s"
  "scopedHeaderRoutes (createRecordingContext w b s) = scopedHeaderRoutes s"
  "recordingOutputPath (createRecordingContext w b s) = recordingOutputPath s"
  "recordingTempDir (createRecordingContext w b s) = recordingTempDir s"
  "launchWarnings (createRecordingContext w b s) = launchWarnings s"
  "screencastActive (createRecordingContext w b s) = screencastActive s"
  "frameCallback (createRecordingContext w b s) = frameCallback s"
  "screencastFrameHandler (createRecordingContext w b s) = screencastFrameHandler s"
  "cdpSession (createRecordingContext w b s) = cdpSession s"
  "closures (createRecordingContext w b s) = closures s"
  by (simp_all add: createRecordingContext_def Let_def)

lemma trackRecording_frame [simp]:
  "browser (trackRecording s) = browser s"
  "cdpEndpoint (trackRecording s) = cdpEndpoint s"
  "isPersistentContext (trackRecording s) = isPersistentContext s"
  "browserbaseSessionId (trackRecording s) = browserbaseSessionId s"
  "browserbaseApiKey (trackRecording s) = browserbaseApiKey s"
  "browserUseSessionId (trackRecording s) = browserUseSessionId s"
  "browserUseApiKey (trackRecording s) = browserUseApiKey s"
  "kernelSessionId (trackRecording s) = kernelSessionId s"
  "kernelApiKey (trackRecording s) = kernelApiKey s"
  "refMap (trackRecording s) = refMap s"
  "lastSnapshot (trackRecording s) = lastSnapshot s"
  "scopedHeaderRoutes (trackRecording s) = scopedHeaderRoutes s"
  "recordingContext (trackRecording s) = recordingContext s"
  "recordingPage (trackRecording s) = recordingPage s"
  "recordingOutputPath (trackRecording s) = recordingOutputPath s"
  "recordingTempDir (trackRecording s) = recordingTempDir s"
  "launchWarnings (trackRecording s) = launchWarnings s"
  "screencastActive (trackRecording s) = screencastActive s"
  "frameCallback (trackRecording s) = frameCallback s"
  "screencastFrameHandler (trackRecording s) = screencastFrameHandler s"
  "cdpSession (trackRecording s) = cdpSession s"
  "closures (trackRecording s) = closures s"
  "calls (trackRecording s) = calls s"
  by (simp_all add: trackRecording_def Let_def split: option.splits)




lemma untrackRecording_frame [simp]:
  "browser (untrackRecording rc rp s) = browser s"
  "cdpEndpoint (untrackRecording rc rp s) = cdpEndpoint s"
  "isPersistentContext (untrackRecording rc rp s) = isPersistentContext s"
  "browserbaseSessionId (untrackRecording rc rp s) = browserbaseSessionId s"
  "browserbaseApiKey (untrackRecording rc rp s) = browserbaseApiKey s"
  "browserUseSessionId (untrackRecording rc rp s) = browserUseSessionId s"
  "browserUseApiKey (untrackRecording rc rp s) = browserUseApiKey s"
  "kernelSessionId (untrackRecording rc rp s) = kernelSessionId s"
  "kernelApiKey (untrackRecording rc rp s) = kernelApiKey s"
  "activePageIndex (untrackRecording rc rp s) = activePageIndex s"
  "refMap (untrackRecording rc rp s) = refMap s"
  "lastSnapshot (untrackRecording rc rp s) = lastSnapshot s"
  "scopedHeaderRoutes (untrackRecording rc rp s) = scopedHeaderRoutes s"
  "recordingContext (untrackRecording rc rp s) = recordingContext s"
  "recordingPage (untrackRecording rc rp s) = recordingPage s"
  "recordingOutputPath (untrackRecording rc rp s) = recordingOutputPath s"
  "recordingTempDir (untrackRecording rc rp s) = recordingTempDir s"
  "launchWarnings (untrackRecording rc rp s) = launchWarnings s"
  "screencastActive (untrackRecording rc rp s) = screencastActive s"
  "frameCallback (untrackRecording rc rp s) = frameCallback s"
  "screencastFrameHandler (untrackRecording rc rp s) = screencastFrameHandler s"
  "cdpSession (untrackRecording rc rp s) = cdpSession s"
  "closures (untrackRecording rc rp s) = closures s"
  "calls (untrackRecording rc rp s) = calls s"
  by (simp_all add: untrackRecording_def Let_def)

lemma resetRecording_frame [simp]:
  "browser (resetRecording s) = browser s"
  "cdpEndpoint (resetRecording s) = cdpEndpoint s"
  "isPersistentContext (resetRecording s) = isPersistentContext s"
  "browserbaseSessionId (resetRecording s) = browserbaseSessionId s"
  "browserbaseApiKey (resetRecording s) = browserbaseApiKey s"
  "browserUseSessionId (resetRecording s) = browserUseSessionId s"
  "browserUseApiKey (resetRecording s) = browserUseApiKey s"
  "kernelSessionId (resetRecording s) = kernelSessionId s"
  "kernelApiKey (resetRecording s) = kernelApiKey s"
  "contexts (resetRecording s) = contexts s"
  "pages (resetRecording s) = pages s"
  "activePageIndex (resetRecording s) = activePageIndex s"
  "refMap (resetRecording s) = refMap s"
  "lastSnapshot (resetRecording s) = lastSnapshot s"
  "scopedHeaderRoutes (resetRecording s) = scopedHeaderRoutes s"
  "launchWarnings (resetRecording s) = launchWarnings s"
  "screencastActive (resetRecording s) = screencastActive s"
  "frameCallback (resetRecording s) = frameCallback s"
  "screencastFrameHandler (resetRecording s) = screencastFrameHandler s"
  "cdpSession (resetRecording s) = cdpSession s"
  "closures (resetRecording s) = closures s"
  "calls (resetRecording s) = calls s"
  by (simp_all add: resetRecording_def)

lemma adjustActiveIndex_frame [simp]:
  "browser (adjustActiveIndex s) = browser s"
  "cdpEndpoint (adjustActiveIndex s) = cdpEndpoint s"
  "isPersistentContext (adjustActiveIndex s) = isPersistentContext s"
  "browserbaseSessionId (adjustActiveIndex s) = browserbaseSessionId s"
  "browserbaseApiKey (adjustActiveIndex s) = browserbaseApiKey s"
  "browserUseSessionId (adjustActiveIndex s) = browserUseSessionId s"
  "browserUseApiKey (adjustActiveIndex s) = browserUseApiKey s"
  "kernelSessionId (adjustActiveIndex s) = kernelSessionId s"
  "kernelApiKey (adjustActiveIndex s) = kernelApiKey s"
  "contexts (adjustActiveIndex s) = contexts s"
  "pages (adjustActiveIndex s) = pages s"
  "refMap (adjustActiveIndex s) = refMap s"
  "lastSnapshot (adjustActiveIndex s) = lastSnapshot s"
  "scopedHeaderRoutes (adjustActiveIndex s) = scopedHeaderRoutes s"
  "recordingContext (adjustActiveIndex s) = recordingContext s"
  "recordingPage (adjustActiveIndex s) = recordingPage s"
  "recordingOutputPath (adjustActiveIndex s) = recordingOutputPath s"
  "recordingTempDir (adjustActiveIndex s) = recordingTempDir s"
  "launchWarnings (adjustActiveIndex s) = launchWarnings s"
  "screencastActive (adjustActiveIndex s) = screencastActive s"
  "frameCallback (adjustActiveIndex s) = frameCallback s"
  "screencastFrameHandler (adjustActiveIndex s) = screencastFrameHandler s"
  "cdpSession (adjustActiveIndex s) = cdpSession s"
  "closures (adjustActiveIndex s) = closures s"
  "calls (adjustActiveIndex s) = calls s"
  by (simp_all add: adjustActiveIndex_def)

lemma resetRecording_fields [simp]:
  "recordingContext (resetRecording s) = None"
  "recordingPage (resetRecording s) = None"
  "recordingOutputPath (resetRecording s) = []"
  "recordingTempDir (resetRecording s) = []"
  by (simp_all add: resetRecording_def)








lemma calls_getCDPSession: "e \<in> set (calls s) \<Longrightarrow> e \<in> set (calls (snd (getCDPSession w s)))"
  by (auto simp: getCDPSession_def getPage_def Let_def split: option.splits sum.splits)

lemma calls_stopScreencast: "e \<in> set (calls s) \<Longrightarrow> e \<in> set (calls (snd (stopScreencast w s)))"
  by (auto simp: stopScreencast_def stopScreencast_try_def Let_def case_prod_beta calls_getCDPSession
           split: option.splits sum.splits)

lemma calls_invalidateCDPSession:
  "e \<in> set (calls s) \<Longrightarrow> e \<in> set (calls (snd (invalidateCDPSession w s)))"
  by (auto simp: invalidateCDPSession_def detachCDPSession_def case_prod_beta calls_stopScreencast
           split: option.splits sum.splits)

lemma stopRecording_closes_page:
  assumes "recordingContext s = Some rc" and "recordingPage s = Some rp"
  shows "PageClose rp \<in> set (calls (snd (stopRecording w s)))"
  using assms
  by (auto simp: stopRecording_def stopRecording_try_def andThen_def attempt_def Let_def
                 case_prod_beta resetRecording_def call_def
           intro!: calls_invalidateCDPSession
           split: option.splits sum.splits)

lemma stopRecording_removes_dir:
  assumes "recordingContext s = Some rc" and "recordingPage s = Some rp"
    and "recordingTempDir s \<noteq> []"
  shows "RmSync (recordingTempDir s) \<in> set (calls (snd (stopRecording w s)))"
  using assms
  by (auto simp: stopRecording_def stopRecording_try_def andThen_def attempt_def Let_def
                 case_prod_beta resetRecording_def call_def
           intro!: calls_invalidateCDPSession
           split: option.splits sum.splits)








lemma closeResources_eq:
  "closeResources w s = s\<lparr>browser := None, calls := calls (closeResources w s)\<rparr>"
  by (cases "browser s")
     (simp_all add: closeResources_def attemptCatch_call foldl_call Let_def)

lemma closeResources_browser [simp]: "browser (closeResources w s) = None"
  by (subst closeResources_eq) simp




lemma afterScreencast_frame [simp]:
  "recordingContext (afterScreencast w s) = recordingContext s"
  "recordingPage (afterScreencast w s) = recordingPage s"
  "\<not> screencastActive (afterScreencast w s)"
  by (simp_all add: afterScreencast_def stopScreencast_def Let_def)

lemma detachCDPSession_cdp [simp]: "cdpSession (detachCDPSession s) = None"
  by (simp add: detachCDPSession_def call_def split: option.splits)

lemma closeResources_frame [simp]:
  "recordingContext (closeResources w s) = recordingContext s"
  "recordingPage (closeResources w s) = recordingPage s"
  "recordingTempDir (closeResources w s) = recordingTempDir s"
  "cdpSession (closeResources w s) = cdpSession s"
  "screencastActive (closeResources w s) = screencastActive s"
  by (subst closeResources_eq, simp)+







lemma wfStep_refl [simp]: "wfStep s s"
  by (simp add: wfStep_def)


lemma wfStep_call [simp]: "wfStep s (call e s)"
  by (simp add: wfStep_def)








lemma firstPageOrNew_eq:
  "snd (firstPageOrNew w c s) = s\<lparr>calls := calls (snd (firstPageOrNew w c s))\<rparr>"
  by (simp add: firstPageOrNew_def call_def split: list.splits)

lemma firstContextAndPage_eq:
  "snd (firstContextAndPage w b s) = s\<lparr>calls := calls (snd (firstContextAndPage w b s))\<rparr>"
  by (simp add: firstContextAndPage_def firstPageOrNew_def call_def Let_def case_prod_beta
           split: list.splits)

lemma wfStep_firstPageOrNew [simp]: "wfStep s (snd (firstPageOrNew w c s))"
  by (subst firstPageOrNew_eq) (simp add: wfStep_def)

lemma wfStep_firstContextAndPage [simp]: "wfStep s (snd (firstContextAndPage w b s))"
  by (subst firstContextAndPage_eq) (simp add: wfStep_def)

lemma firstPageOrNew_frame [simp]:
  "browser (snd (firstPageOrNew w c s)) = browser s"
  "cdpEndpoint (snd (firstPageOrNew w c s)) = cdpEndpoint s"
  "isPersistentContext (snd (firstPageOrNew w c s)) = isPersistentContext s"
  "browserbaseSessionId (snd (firstPageOrNew w c s)) = browserbaseSessionId s"
  "browserbaseApiKey (snd (firstPageOrNew w c s)) = browserbaseApiKey s"
  "browserUseSessionId (snd (firstPageOrNew w c s)) = browserUseSessionId s"
  "browserUseApiKey (snd (firstPageOrNew w c s)) = browserUseApiKey s"
  "kernelSessionId (snd (firstPageOrNew w c s)) = kernelSessionId s"
  "kernelApiKey (snd (firstPageOrNew w c s)) = kernelApiKey s"
  "contexts (snd (firstPageOrNew w c s)) = contexts s"
  "pages (snd (firstPageOrNew w c s)) = pages s"
  "activePageIndex (snd (firstPageOrNew w c s)) = activePageIndex s"
  "refMap (snd (firstPageOrNew w c s)) = refMap s"
  "lastSnapshot (snd (firstPageOrNew w c s)) = lastSnapshot s"
  "scopedHeaderRoutes (snd (firstPageOrNew w c s)) = scopedHeaderRoutes s"
  "recordingContext (snd (firstPageOrNew w c s)) = recordingContext s"
  "recordingPage (snd (firstPageOrNew w c s)) = recordingPage s"
  "recordingOutputPath (snd (firstPageOrNew w c s)) = recordingOutputPath s"
  "recordingTempDir (snd (firstPageOrNew w c s)) = recordingTempDir s"
  "launchWarnings (snd (firstPageOrNew w c s)) = launchWarnings s"
  "screencastActive (snd (firstPageOrNew w c s)) = screencastActive s"
  "frameCallback (snd (firstPageOrNew w c s)) = frameCallback s"
  "screencastFrameHandler (snd (firstPageOrNew w c s)) = screencastFrameHandler s"
  "cdpSession (snd (firstPageOrNew w c s)) = cdpSession s"
  "closures (snd (firstPageOrNew w c s)) = closures s"
  by (simp_all add: firstPageOrNew_def split: list.splits)

lemma firstContextAndPage_frame [simp]:
  "browser (snd (firstContextAndPage w b s)) = browser s"
  "cdpEndpoint (snd (firstContextAndPage w b s)) = cdpEndpoint s"
  "isPersistentContext (snd (firstContextAndPage w b s)) = isPersistentContext s"
  "browserbaseSessionId (snd (firstContextAndPage w b s)) = browserbaseSessionId s"
  "browserbaseApiKey (snd (firstContextAndPage w b s)) = browserbaseApiKey s"
  "browserUseSessionId (snd (firstContextAndPage w b s)) = browserUseSessionId s"
  "browserUseApiKey (snd (firstContextAndPage w b s)) = browserUseApiKey s"
  "kernelSessionId (snd (firstContextAndPage w b s)) = kernelSessionId s"
  "kernelApiKey (snd (firstContextAndPage w b s)) = kernelApiKey s"
  "contexts (snd (firstContextAndPage w b s)) = contexts s"
  "pages (snd (firstContextAndPage w b s)) = pages s"
  "activePageIndex (snd (firstContextAndPage w b s)) = activePageIndex s"
  "refMap (snd (firstContextAndPage w b s)) = refMap s"
  "lastSnapshot (snd (firstContextAndPage w b s)) = lastSnapshot s"
  "scopedHeaderRoutes (snd (firstContextAndPage w b s)) = scopedHeaderRoutes s"
  "recordingContext (snd (firstContextAndPage w b s)) = recordingContext s"
  "recordingPage (snd (firstContextAndPage w b s)) = recordingPage s"
  "recordingOutputPath (snd (firstContextAndPage w b s)) = recordingOutputPath s"
  "recordingTempDir (snd (firstContextAndPage w b s)) = recordingTempDir s"
  "launchWarnings (snd (firstContextAndPage w b s)) = launchWarnings s"
  "screencastActive (snd (firstContextAndPage w b s)) = screencastActive s"
  "frameCallback (snd (firstContextAndPage w b s)) = frameCallback s"
  "screencastFrameHandler (snd (firstContextAndPage w b s)) = screencastFrameHandler s"
  "cdpSession (snd (firstContextAndPage w b s)) = cdpSession s"
  "closures (snd (firstContextAndPage w b s)) = closures s"
  by (simp_all add: firstContextAndPage_def Let_def case_prod_beta split: list.splits)

lemma findOrCreateKernelProfile_frame [simp]:
  "browser (snd (findOrCreateKernelProfile w n s)) = browser s"
  "cdpEndpoint (snd (findOrCreateKernelProfile w n s)) = cdpEndpoint s"
  "isPersistentContext (snd (findOrCreateKernelProfile w n s)) = isPersistentContext s"
  "browserbaseSessionId (snd (findOrCreateKernelProfile w n s)) = browserbaseSessionId s"
  "browserbaseApiKey (snd (findOrCreateKernelProfile w n s)) = browserbaseApiKey s"
  "browserUseSessionId (snd (findOrCreateKernelProfile w n s)) = browserUseSessionId s"
  "browserUseApiKey (snd (findOrCreateKernelProfile w n s)) = browserUseApiKey s"
  "kernelSessionId (snd (findOrCreateKernelProfile w n s)) = kernelSessionId s"
  "kernelApiKey (snd (findOrCreateKernelProfile w n s)) = kernelApiKey s"
  "contexts (snd (findOrCreateKernelProfile w n s)) = contexts s"
  "pages (snd (findOrCreateKernelProfile w n s)) = pages s"
  "activePageIndex (snd (findOrCreateKernelProfile w n s)) = activePageIndex s"
  "refMap (snd (findOrCreateKernelProfile w n s)) = refMap s"
  "lastSnapshot (snd (findOrCreateKernelProfile w n s)) = lastSnapshot s"
  "scopedHeaderRoutes (snd (findOrCreateKernelProfile w n s)) = scopedHeaderRoutes s"
  "recordingContext (snd (findOrCreateKernelProfile w n s)) = recordingContext s"
  "recordingPage (snd (findOrCreateKernelProfile w n s)) = recordingPage s"
  "recordingOutputPath (snd (findOrCreateKernelProfile w n s)) = recordingOutputPath s"
  "recordingTempDir (snd (findOrCreateKernelProfile w n s)) = recordingTempDir s"
  "launchWarnings (snd (findOrCreateKernelProfile w n s)) = launchWarnings s"
  "screencastActive (snd (findOrCreateKernelProfile w n s)) = screencastActive s"
  "frameCallback (snd (findOrCreateKernelProfile w n s)) = frameCallback s"
  "screencastFrameHandler (snd (findOrCreateKernelProfile w n s)) = screencastFrameHandler s"
  "cdpSession (snd (findOrCreateKernelProfile w n s)) = cdpSession s"
  "closures (snd (findOrCreateKernelProfile w n s)) = closures s"
  by (simp_all add: findOrCreateKernelProfile_def Let_def case_prod_beta)




lemma registerLocalContext_frame [simp]:
  "browser (registerLocalContext w c s) = browser s"
  "cdpEndpoint (registerLocalContext w c s) = cdpEndpoint s"
  "isPersistentContext (registerLocalContext w c s) = isPersistentContext s"
  "browserbaseSessionId (registerLocalContext w c s) = browserbaseSessionId s"
  "browserbaseApiKey (registerLocalContext w c s) = browserbaseApiKey s"
  "browserUseSessionId (registerLocalContext w c s) = browserUseSessionId s"
  "browserUseApiKey (registerLocalContext w c s) = browserUseApiKey s"
  "kernelSessionId (registerLocalContext w c s) = kernelSessionId s"
  "kernelApiKey (registerLocalContext w c s) = kernelApiKey s"
  "refMap (registerLocalContext w c s) = refMap s"
  "lastSnapshot (registerLocalContext w c s) = lastSnapshot s"
  "scopedHeaderRoutes (registerLocalContext w c s) = scopedHeaderRoutes s"
  "recordingContext (registerLocalContext w c s) = recordingContext s"
  "recordingPage (registerLocalContext w c s) = recordingPage s"
  "recordingOutputPath (registerLocalContext w c s) = recordingOutputPath s"
  "recordingTempDir (registerLocalContext w c s) = recordingTempDir s"
  "launchWarnings (registerLocalContext w c s) = launchWarnings s"
  "screencastActive (registerLocalContext w c s) = screencastActive s"
  "frameCallback (registerLocalContext w c s) = frameCallback s"
  "screencastFrameHandler (registerLocalContext w c s) = screencastFrameHandler s"
  "cdpSession (registerLocalContext w c s) = cdpSession s"
  "closures (registerLocalContext w c s) = closures s"
  by (simp_all add: registerLocalContext_def Let_def case_prod_beta)

lemma openLocalContext_frame [simp]:
  "browserbaseSessionId (snd (openLocalContext w opts l s)) = browserbaseSessionId s"
  "browserbaseApiKey (snd (openLocalContext w opts l s)) = browserbaseApiKey s"
  "browserUseSessionId (snd (openLocalContext w opts l s)) = browserUseSessionId s"
  "browserUseApiKey (snd (openLocalContext w opts l s)) = browserUseApiKey s"
  "kernelSessionId (snd (openLocalContext w opts l s)) = kernelSessionId s"
  "kernelApiKey (snd (openLocalContext w opts l s)) = kernelApiKey s"
  "contexts (snd (openLocalContext w opts l s)) = contexts s"
  "pages (snd (openLocalContext w opts l s)) = pages s"
  "activePageIndex (snd (openLocalContext w opts l s)) = activePageIndex s"
  "refMap (snd (openLocalContext w opts l s)) = refMap s"
  "lastSnapshot (snd (openLocalContext w opts l s)) = lastSnapshot s"
  "scopedHeaderRoutes (snd (openLocalContext w opts l s)) = scopedHeaderRoutes s"
  "recordingContext (snd (openLocalContext w opts l s)) = recordingContext s"
  "recordingPage (snd (openLocalContext w opts l s)) = recordingPage s"
  "recordingOutputPath (snd (openLocalContext w opts l s)) = recordingOutputPath s"
  "recordingTempDir (snd (openLocalContext w opts l s)) = recordingTempDir s"
  "screencastActive (snd (openLocalContext w opts l s)) = screencastActive s"
  "frameCallback (snd (openLocalContext w opts l s)) = frameCallback s"
  "screencastFrameHandler (snd (openLocalContext w opts l s)) = screencastFrameHandler s"
  "cdpSession (snd (openLocalContext w opts l s)) = cdpSession s"
  "closures (snd (openLocalContext w opts l s)) = closures s"
  by (simp_all add: openLocalContext_def Let_def)









lemma setScopedHeaders_frame [simp]:
  "browser (snd (setScopedHeaders w origin hs s)) = browser s"
  "cdpEndpoint (snd (setScopedHeaders w origin hs s)) = cdpEndpoint s"
  "isPersistentContext (snd (setScopedHeaders w origin hs s)) = isPersistentContext s"
  "browserbaseSessionId (snd (setScopedHeaders w origin hs s)) = browserbaseSessionId s"
  "browserbaseApiKey (snd (setScopedHeaders w origin hs s)) = browserbaseApiKey s"
  "browserUseSessionId (snd (setScopedHeaders w origin hs s)) = browserUseSessionId s"
  "browserUseApiKey (snd (setScopedHeaders w origin hs s)) = browserUseApiKey s"
  "kernelSessionId (snd (setScopedHeaders w origin hs s)) = kernelSessionId s"
  "kernelApiKey (snd (setScopedHeaders w origin hs s)) = kernelApiKey s"
  "contexts (snd (setScopedHeaders w origin hs s)) = contexts s"
  "pages (snd (setScopedHeaders w origin hs s)) = pages s"
  "activePageIndex (snd (setScopedHeaders w origin hs s)) = activePageIndex s"
  "refMap (snd (setScopedHeaders w origin hs s)) = refMap s"
  "lastSnapshot (snd (setScopedHeaders w origin hs s)) = lastSnapshot s"
  "recordingContext (snd (setScopedHeaders w origin hs s)) = recordingContext s"
  "recordingPage (snd (setScopedHeaders w origin hs s)) = recordingPage s"
  "recordingOutputPath (snd (setScopedHeaders w origin hs s)) = recordingOutputPath s"
  "recordingTempDir (snd (setScopedHeaders w origin hs s)) = recordingTempDir s"
  "launchWarnings (snd (setScopedHeaders w origin hs s)) = launchWarnings s"
  "screencastActive (snd (setScopedHeaders w origin hs s)) = screencastActive s"
  "frameCallback (snd (setScopedHeaders w origin hs s)) = frameCallback s"
  "screencastFrameHandler (snd (setScopedHeaders w origin hs s)) = screencastFrameHandler s"
  "cdpSession (snd (setScopedHeaders w origin hs s)) = cdpSession s"
  by (simp_all add: setScopedHeaders_def Let_def snd_andThen split: sum.splits option.splits)





subsection \<open>Properties of the operations and of the concrete states\<close>




lemma grows_refl [simp]: "grows s s"
  by (simp add: grows_def)

lemma grows_trans: "grows s t \<Longrightarrow> grows t u \<Longrightarrow> grows s u"
  by (auto simp: grows_def)

lemma grows_call [simp]: "grows s (call e s)"
  by (simp add: grows_def)

lemma grows_getCDPSession [simp]: "grows s (snd (getCDPSession w s))"
  by (simp add: getCDPSession_def getPage_def Let_def grows_def split: option.splits sum.splits)

lemma grows_stopScreencast_try: "grows s (snd (stopScreencast_try w s))"
proof -
  have a: "grows s (snd (getCDPSession w s))" by simp
  have "grows (snd (getCDPSession w s)) (snd (stopScreencast_try w s))"
    by (simp add: stopScreencast_try_def Let_def case_prod_beta grows_def
             split: option.splits sum.splits)
  with a show ?thesis by (rule grows_trans)
qed

lemma grows_stopScreencast [simp]: "grows s (snd (stopScreencast w s))"
  using grows_stopScreencast_try[of s w]
  by (simp add: stopScreencast_def Let_def grows_def)

lemma grows_detachCDPSession [simp]: "grows s (detachCDPSession s)"
  by (simp add: detachCDPSession_def grows_def split: option.splits)

lemma grows_invalidateCDPSession [simp]: "grows s (snd (invalidateCDPSession w s))"
proof -
  let ?t = "if screencastActive s then snd (stopScreencast w s) else s"
  have a: "grows s ?t" by simp
  have "snd (invalidateCDPSession w s) = detachCDPSession ?t"
    by (simp add: invalidateCDPSession_def case_prod_beta split: sum.splits)
  then show ?thesis using grows_trans[OF a grows_detachCDPSession] by simp
qed

lemma snd_attempt [simp]: "snd (attempt w e s) = call e s"
  by (simp add: attempt_def split: option.splits)

lemma andThen_cases:
  "(\<exists>e. fst r = Inl e \<and> andThen r k = (Inl e, snd r))
   \<or> (\<exists>x. fst r = Inr x \<and> andThen r k = k x (snd r))"
  by (cases "fst r") (simp_all add: andThen_def case_prod_beta)



lemma calledFirst_grows: "calledFirst s e t \<Longrightarrow> grows t u \<Longrightarrow> calledFirst s e u"
  by (auto simp: calledFirst_def grows_def)




lemma calls_resetRecording [simp]: "calls (resetRecording s) = calls s"
  by (simp add: resetRecording_def)



lemma closeTab_last_tab:
  assumes "length (pages s) = 1"
    and "i = Some 0 \<or> (i = None \<and> activePageIndex s = 0)"
  shows "closeTab w i s
           = (Inl (Error ''Cannot close the last tab. Use \"close\" to close the browser.''), s)"
  using assms by (auto simp: closeTab_def Let_def)







lemmas world_defs = quietWorld_def saveFails_def debuggableWorld_def plainLaunch_def initial_def
  profileLaunch_def cdpLaunch_def firefoxFileAccess_def cdpWithProfile_def

lemmas state_defs = launchedState_def twoTabsState_def emptiedState_def screencastState_def
  recordingState_def staleIndexState_def persistentState_def cdpSessionState_def

lemmas launch_defs = launch_def launchRoute_def launchLocal_def openLocalContext_def
  registerLocalContext_def firstPageOrNew_def isLaunched_def hasExtensions_def hasProfile_def
  hasStorageState_def requestedEndpoint_def truthy_def stateWarnings_def needsRelaunch_def
  needsCdpReconnect_def isCdpConnectionAlive_def pathJoin_def sessionName_def expandHome_def
  startsWith_def connectViaCDP_def attempt_def attemptCatch_def adoptContexts_def
  adoptPages_def includesStr_def showNat.simps digit_def

lemmas recording_defs = startRecording_def autoCaptureUrl_def captureStorageState_def
  createRecordingTempDir_def createRecordingContext_def trackRecording_def
  stopRecording_def stopRecording_try_def untrackRecording_def resetRecording_def
  adjustActiveIndex_def attempt_def attemptCatch_def andThen_def endsWith_def
  invalidateCDPSession_def detachCDPSession_def pathJoin_def sessionName_def truthy_def
  at_def splice1_def showNat.simps digit_def


lemma launchedState_run': "perform saveFails (Launch plainLaunch) initial = launchedState"
  by (simp add: launch_defs world_defs state_defs call_def Let_def)




lemma emptiedState_run: "perform quietWorld (PageClosed (Page 3)) launchedState = emptiedState"
  by (simp add: onPageClose_def splice1_def world_defs state_defs Let_def)

lemma screencastState_run: "perform quietWorld (StartScreencast 7) launchedState = screencastState"
  by (simp add: startScreencast_def getCDPSession_def getPage_def at_def
        world_defs state_defs call_def Let_def)

lemma recordingState_run:
  "perform saveFails (StartRecording ''out.webm'' None) launchedState = recordingState"
  by (simp add: recording_defs world_defs state_defs call_def Let_def)

lemma staleIndexState_run: "perform saveFails StopRecording recordingState = staleIndexState"
  by (simp add: recording_defs world_defs state_defs call_def Let_def)










lemma staleIndexState_event: "perform saveFails (PageClosed (Page 8)) staleIndexState = staleIndexState"
  by (simp add: onPageClose_def state_defs initial_def Let_def)
section \<open>The claims\<close>












text \<open>
  Claim C6. With one page left, \<open>closeTab\<close> rejects with the last-tab error when the target
  index is valid (\<open>closeTab_last_tab\<close>). A \<open>stopRecording\<close> whose video cannot be saved
  leaves the active index past the end of the pages, since its \<open>catch\<close> block does not
  adjust the index as the \<open>try\<close> block does, and the close event of the recording page
  finds the page already removed; in that state \<open>closeTab()\<close> with one page left rejects
  with the invalid-index error instead.
\<close>

theorem closeTab_stale_index:
  "run [(saveFails, Launch plainLaunch), (saveFails, StartRecording ''out.webm'' None),
        (saveFails, StopRecording), (saveFails, PageClosed (Page 8))] initial = staleIndexState
   \<and> pages staleIndexState = [Page 3]
   \<and> activePageIndex staleIndexState = 1
   \<and> closeTab saveFails None staleIndexState = (Inl (Error ''Invalid tab index: 1''), staleIndexState)"
proof -
  have r: "run [(saveFails, Launch plainLaunch), (saveFails, StartRecording ''out.webm'' None),
        (saveFails, StopRecording), (saveFails, PageClosed (Page 8))] initial = staleIndexState"
    unfolding run_def
    by (simp only: foldl.simps prod.case launchedState_run' recordingState_run staleIndexState_run
          staleIndexState_event)
  have c: "closeTab saveFails None staleIndexState
             = (Inl (Error ''Invalid tab index: 1''), staleIndexState)"
    by (simp add: closeTab_def staleIndexState_def launchedState_def initial_def showInt_def
          digit_def Let_def)
  show ?thesis using r c by (simp add: staleIndexState_def launchedState_def initial_def)
qed

text \<open>
  Claim C7. \<open>startRecording\<close> throws when a recording is in progress, when the session is
  not launched, when the output path exists, or when the output path does not end in
  \<open>.webm\<close>; the state is then as it was, so no context, page or temp directory was created
  and no call was issued.
\<close>

theorem startRecording_rejections:
  assumes "recordingContext s \<noteq> None \<or> \<not> isLaunched s \<or> existsSync w f \<or> \<not> endsWith f ''.webm''"
  shows "(\<exists>e. startRecording w f u s = (Inl e, s))"
  using assms
  by (cases "browser s") (auto simp: startRecording_def isLaunched_def)

theorem startRecording_rejections_witness:
  "\<not> endsWith ''out.mp4'' ''.webm''
   \<and> fst (startRecording quietWorld ''out.mp4'' None launchedState) \<noteq> Inr ()
   \<and> snd (startRecording quietWorld ''out.mp4'' None launchedState) = launchedState"
proof -
  have a: "\<not> endsWith ''out.mp4'' ''.webm''" by (simp add: endsWith_def)
  show ?thesis
    using startRecording_rejections[of launchedState quietWorld "''out.mp4''" None] a
    by auto
qed



text \<open>
  Claim C9. While a screencast is active, \<open>startScreencast\<close> throws "Screencast already
  active" and leaves the state as it was; while none is active, \<open>stopScreencast\<close> returns
  without error and leaves the state as it was, so no stop command is issued.
\<close>

theorem screencast_guards:
  "(screencastActive s \<longrightarrow>
      startScreencast w callback s = (Inl (Error ''Screencast already active''), s))
   \<and> (\<not> screencastActive s \<longrightarrow> stopScreencast w s = (Inr (), s))"
  by (simp add: startScreencast_def stopScreencast_def)

theorem screencast_guards_witness:
  "screencastActive screencastState
   \<and> startScreencast quietWorld 8 screencastState
       = (Inl (Error ''Screencast already active''), screencastState)
   \<and> \<not> screencastActive launchedState
   \<and> stopScreencast quietWorld launchedState = (Inr (), launchedState)"
proof -
  have a: "screencastActive screencastState" "\<not> screencastActive launchedState"
    by (simp_all add: state_defs initial_def)
  show ?thesis
    using screencast_guards[of screencastState quietWorld 8]
      screencast_guards[of launchedState quietWorld 8] a
    by simp
qed



end
